theory Spec2Isabelle
  imports Complex_Main "HOL-Library.AList"
begin

section \<open>Values held by the tracker\<close>

text \<open>
  \<^verbatim>\<open>app4.py\<close> keeps everything in untyped Python containers that are written to and read
  from one JSON file. The values are modelled as JSON trees: \<open>None\<close>, \<open>bool\<close>, \<open>int\<close>,
  \<open>str\<close>, \<open>list\<close> and \<open>dict\<close> with string keys. A dict is an association list in
  insertion order; a Python dict never holds a key twice, which theorems state as
  \<open>distinct (map fst kvs)\<close> where they depend on it. Floats are not part of the model:
  the tracker itself only ever stores strings, booleans, integers and lists of strings.
  The attributes of the tracker are such values and nothing fixes their shape (the file
  is loaded as it is), so every statement of the program is modelled with the exception
  Python raises when the value at hand does not support it, and a theorem names the
  shapes it is about.
\<close>

datatype jvalue =
    JNull
  | JBool bool
  | JInt int
  | JStr string
  | JList "jvalue list"
  | JObj "(string \<times> jvalue) list"

text \<open>The exceptions the modelled statements can raise.\<close>

datatype py_error =
    KeyError
  | TypeError
  | AttributeError
  | ValueError
  | ZeroDivisionError
  | OverflowError
  | OSError
  | JSONDecodeError

text \<open>Sequencing of statements that may raise: the first exception ends the block.\<close>

definition bindE :: "'e + 'a \<Rightarrow> ('a \<Rightarrow> 'e + 'b) \<Rightarrow> 'e + 'b" where
  "bindE m f = (case m of Inl e \<Rightarrow> Inl e | Inr x \<Rightarrow> f x)"

subsection \<open>Python's container primitives on these values\<close>

text \<open>\<open>bool(v)\<close>, as used by \<open>if v\<close> and \<open>not v\<close>.\<close>

fun py_truth :: "jvalue \<Rightarrow> bool" where
  "py_truth JNull = False"
| "py_truth (JBool b) = b"
| "py_truth (JInt n) = (n \<noteq> 0)"
| "py_truth (JStr s) = (s \<noteq> [])"
| "py_truth (JList xs) = (xs \<noteq> [])"
| "py_truth (JObj kvs) = (kvs \<noteq> [])"

text \<open>\<open>d.get(k, default)\<close> with a string key: only a dict has the method.\<close>

fun py_get :: "jvalue \<Rightarrow> string \<Rightarrow> jvalue \<Rightarrow> py_error + jvalue" where
  "py_get (JObj kvs) k d = Inr (case map_of kvs k of Some v \<Rightarrow> v | None \<Rightarrow> d)"
| "py_get _ k d = Inl AttributeError"

text \<open>\<open>c[k]\<close> with a string key.\<close>

fun py_getitem :: "jvalue \<Rightarrow> string \<Rightarrow> py_error + jvalue" where
  "py_getitem (JObj kvs) k = (case map_of kvs k of Some v \<Rightarrow> Inr v | None \<Rightarrow> Inl KeyError)"
| "py_getitem _ k = Inl TypeError"

text \<open>\<open>c[k] = v\<close> with a string key; an existing key keeps its position.\<close>

fun py_setitem :: "jvalue \<Rightarrow> string \<Rightarrow> jvalue \<Rightarrow> py_error + jvalue" where
  "py_setitem (JObj kvs) k v = Inr (JObj (AList.update k v kvs))"
| "py_setitem _ k v = Inl TypeError"

text \<open>\<open>del c[k]\<close> with a string key.\<close>

fun py_delitem :: "jvalue \<Rightarrow> string \<Rightarrow> py_error + jvalue" where
  "py_delitem (JObj kvs) k =
     (if k \<in> fst ` set kvs then Inr (JObj (AList.delete k kvs)) else Inl KeyError)"
| "py_delitem _ k = Inl TypeError"

text \<open>\<open>k in s\<close> for two strings is the substring test.\<close>

fun is_substring :: "string \<Rightarrow> string \<Rightarrow> bool" where
  "is_substring k [] = (k = [])"
| "is_substring k (c # s) = (take (length k) (c # s) = k \<or> is_substring k s)"

text \<open>\<open>k in c\<close> with a string \<open>k\<close>.\<close>

fun py_contains :: "string \<Rightarrow> jvalue \<Rightarrow> py_error + bool" where
  "py_contains k (JObj kvs) = Inr (k \<in> fst ` set kvs)"
| "py_contains k (JList xs) = Inr (JStr k \<in> set xs)"
| "py_contains k (JStr s) = Inr (is_substring k s)"
| "py_contains k _ = Inl TypeError"

text \<open>\<open>c.append(x)\<close>: only a list has the method.\<close>

fun py_append :: "jvalue \<Rightarrow> jvalue \<Rightarrow> py_error + jvalue" where
  "py_append (JList xs) x = Inr (JList (xs @ [x]))"
| "py_append _ x = Inl AttributeError"

text \<open>\<open>len(c)\<close>.\<close>

fun py_len :: "jvalue \<Rightarrow> py_error + int" where
  "py_len (JList xs) = Inr (int (length xs))"
| "py_len (JObj kvs) = Inr (int (length kvs))"
| "py_len (JStr s) = Inr (int (length s))"
| "py_len _ = Inl TypeError"

text \<open>The elements \<open>for x in c\<close> visits: a dict yields its keys, a string its characters.\<close>

fun py_iter :: "jvalue \<Rightarrow> py_error + jvalue list" where
  "py_iter (JList xs) = Inr xs"
| "py_iter (JObj kvs) = Inr (map (\<lambda>kv. JStr (fst kv)) kvs)"
| "py_iter (JStr s) = Inr (map (\<lambda>c. JStr [c]) s)"
| "py_iter _ = Inl TypeError"


text \<open>
  A comprehension \<open>[x for x in xs if p(x)]\<close> whose condition may raise: the elements are
  tested in order and the first exception ends the comprehension.
\<close>

fun filterE :: "('a \<Rightarrow> py_error + bool) \<Rightarrow> 'a list \<Rightarrow> py_error + 'a list" where
  "filterE p [] = Inr []"
| "filterE p (x # xs) =
     bindE (p x) (\<lambda>b. bindE (filterE p xs) (\<lambda>ys. Inr (if b then x # ys else ys)))"

text \<open>The nested forms \<open>c[k1][k2] = v\<close>, \<open>k2 in c[k1]\<close> and \<open>del c[k1][k2]\<close>. The
  inner dict is changed in place, so the outer container sees the change under \<open>k1\<close>.\<close>

definition py_setitem2 :: "jvalue \<Rightarrow> string \<Rightarrow> string \<Rightarrow> jvalue \<Rightarrow> py_error + jvalue" where
  "py_setitem2 c k1 k2 v =
     bindE (py_getitem c k1) (\<lambda>inner.
     bindE (py_setitem inner k2 v) (\<lambda>inner'.
     py_setitem c k1 inner'))"

definition py_contains2 :: "string \<Rightarrow> jvalue \<Rightarrow> string \<Rightarrow> py_error + bool" where
  "py_contains2 k2 c k1 = bindE (py_getitem c k1) (\<lambda>inner. py_contains k2 inner)"

definition py_delitem2 :: "jvalue \<Rightarrow> string \<Rightarrow> string \<Rightarrow> py_error + jvalue" where
  "py_delitem2 c k1 k2 =
     bindE (py_getitem c k1) (\<lambda>inner.
     bindE (py_delitem inner k2) (\<lambda>inner'.
     py_setitem c k1 inner'))"

section \<open>The tracker and its backing file\<close>

text \<open>
  What \<open>medication_data.json\<close> holds when it is opened: no file, a file that cannot be
  opened or read, a file that is not JSON, or a JSON document. \<open>json.dump\<close> and
  \<open>json.load\<close> belong to Python's library, not to this program; they are taken to write
  and read back the same tree.
\<close>

datatype disk =
    Missing
  | Unreadable
  | Malformed
  | Document jvalue

text \<open>The four attributes of \<open>MedicationTracker\<close>, together with the content of the file
  that \<open>self.data_file\<close> names.\<close>

record tracker =
  medications :: jvalue
  logs :: jvalue
  mood_logs :: jvalue
  side_effects :: jvalue
  data_file :: disk

text \<open>
  What one call obtains from outside the program: the string \<open>str(uuid.uuid4())\<close>, the
  instant \<open>datetime.now()\<close> as a count of microseconds, and the text
  \<open>datetime.now().isoformat()\<close> of that instant.
\<close>

record env =
  uuid4 :: string
  now :: int
  now_isoformat :: string

definition initialize_empty_data :: "tracker \<Rightarrow> tracker" where
  "initialize_empty_data t =
     t\<lparr>medications := JObj [], logs := JList [], mood_logs := JList [], side_effects := JList []\<rparr>"

text \<open>\<open>json.load(f)\<close> inside \<open>with open(...)\<close>: called only when the file exists.\<close>

fun json_load :: "disk \<Rightarrow> py_error + jvalue" where
  "json_load (Document data) = Inr data"
| "json_load Malformed = Inl JSONDecodeError"
| "json_load Unreadable = Inl OSError"
| "json_load Missing = Inl OSError"

text \<open>The body of the \<open>try\<close> block of \<open>load_data\<close>.\<close>

definition load_data_try :: "tracker \<Rightarrow> py_error + tracker" where
  "load_data_try t =
     bindE (json_load (data_file t)) (\<lambda>data.
     bindE (py_get data ''medications'' (JObj [])) (\<lambda>m.
     bindE (py_get data ''logs'' (JList [])) (\<lambda>l.
     bindE (py_get data ''mood_logs'' (JList [])) (\<lambda>ml.
     bindE (py_get data ''side_effects'' (JList [])) (\<lambda>se.
     Inr (t\<lparr>medications := m, logs := l, mood_logs := ml, side_effects := se\<rparr>))))))"

definition load_data :: "tracker \<Rightarrow> tracker" where
  "load_data t =
     (if data_file t \<noteq> Missing
      then (case load_data_try t of Inr t' \<Rightarrow> t' | Inl e \<Rightarrow> initialize_empty_data t)
      else initialize_empty_data t)"

text \<open>\<open>MedicationTracker()\<close>: a new object over the file as it is on disk. The four
  attributes do not exist before \<open>load_data\<close> sets them.\<close>

definition new_tracker :: "disk \<Rightarrow> tracker" where
  "new_tracker d =
     load_data \<lparr>medications = JNull, logs = JNull, mood_logs = JNull, side_effects = JNull,
                data_file = d\<rparr>"

text \<open>\<open>save_data\<close> overwrites the file with the four collections; opening and writing
  the file are taken to succeed.\<close>

definition save_data :: "tracker \<Rightarrow> tracker" where
  "save_data t =
     t\<lparr>data_file := Document (JObj
        [(''medications'', medications t),
         (''logs'', logs t),
         (''mood_logs'', mood_logs t),
         (''side_effects'', side_effects t)])\<rparr>"

definition new_medication :: "env \<Rightarrow> string \<Rightarrow> string \<Rightarrow> string \<Rightarrow> string list \<Rightarrow> string \<Rightarrow> jvalue" where
  "new_medication e name dosage frequency times' notes =
     JObj [(''name'', JStr name),
           (''dosage'', JStr dosage),
           (''frequency'', JStr frequency),
           (''times'', JList (map JStr times')),
           (''notes'', JStr notes),
           (''created_date'', JStr (now_isoformat e)),
           (''active'', JBool True)]"

definition add_medication ::
  "env \<Rightarrow> tracker \<Rightarrow> string \<Rightarrow> string \<Rightarrow> string \<Rightarrow> string list \<Rightarrow> string \<Rightarrow> py_error + (string \<times> tracker)" where
  "add_medication e t name dosage frequency times' notes =
     (let med_id = uuid4 e in
      bindE (py_setitem (medications t) med_id (new_medication e name dosage frequency times' notes))
        (\<lambda>m. Inr (med_id, save_data (t\<lparr>medications := m\<rparr>))))"

definition side_effect_entry :: "env \<Rightarrow> string \<Rightarrow> string \<Rightarrow> int \<Rightarrow> string \<Rightarrow> jvalue" where
  "side_effect_entry e med_id effect severity notes =
     JObj [(''id'', JStr (uuid4 e)),
           (''med_id'', JStr med_id),
           (''timestamp'', JStr (now_isoformat e)),
           (''effect'', JStr effect),
           (''severity'', JInt severity),
           (''notes'', JStr notes)]"

definition log_side_effect ::
  "env \<Rightarrow> tracker \<Rightarrow> string \<Rightarrow> string \<Rightarrow> int \<Rightarrow> string \<Rightarrow> py_error + tracker" where
  "log_side_effect e t med_id effect severity notes =
     bindE (py_append (side_effects t) (side_effect_entry e med_id effect severity notes))
       (\<lambda>xs. Inr (save_data (t\<lparr>side_effects := xs\<rparr>)))"

definition mood_entry :: "env \<Rightarrow> int \<Rightarrow> string \<Rightarrow> jvalue" where
  "mood_entry e mood_score notes =
     JObj [(''id'', JStr (uuid4 e)),
           (''timestamp'', JStr (now_isoformat e)),
           (''mood_score'', JInt mood_score),
           (''notes'', JStr notes)]"

definition log_mood :: "env \<Rightarrow> tracker \<Rightarrow> int \<Rightarrow> string \<Rightarrow> py_error + tracker" where
  "log_mood e t mood_score notes =
     bindE (py_append (mood_logs t) (mood_entry e mood_score notes))
       (\<lambda>xs. Inr (save_data (t\<lparr>mood_logs := xs\<rparr>)))"

definition delete_medication :: "tracker \<Rightarrow> string \<Rightarrow> py_error + (bool \<times> tracker)" where
  "delete_medication t med_id =
     bindE (py_contains med_id (medications t)) (\<lambda>present.
     if present
     then bindE (py_delitem (medications t) med_id)
            (\<lambda>m. Inr (True, save_data (t\<lparr>medications := m\<rparr>)))
     else Inr (False, t))"

definition archive_medication :: "env \<Rightarrow> tracker \<Rightarrow> string \<Rightarrow> string \<Rightarrow> py_error + (bool \<times> tracker)" where
  "archive_medication e t med_id reason =
     bindE (py_contains med_id (medications t)) (\<lambda>present.
     if present
     then bindE (py_setitem2 (medications t) med_id ''active'' (JBool False)) (\<lambda>m1.
          bindE (py_setitem2 m1 med_id ''archived_date'' (JStr (now_isoformat e))) (\<lambda>m2.
          bindE (py_setitem2 m2 med_id ''archive_reason'' (JStr reason)) (\<lambda>m3.
          Inr (True, save_data (t\<lparr>medications := m3\<rparr>)))))
     else Inr (False, t))"

text \<open>\<open>if k in c[med_id]: del c[med_id][k]\<close>, as \<open>reactivate_medication\<close> has it twice.\<close>

definition del_if_present :: "jvalue \<Rightarrow> string \<Rightarrow> string \<Rightarrow> py_error + jvalue" where
  "del_if_present c med_id k =
     bindE (py_contains2 k c med_id) (\<lambda>b. if b then py_delitem2 c med_id k else Inr c)"

definition reactivate_medication :: "tracker \<Rightarrow> string \<Rightarrow> py_error + (bool \<times> tracker)" where
  "reactivate_medication t med_id =
     bindE (py_contains med_id (medications t)) (\<lambda>present.
     if present
     then bindE (py_setitem2 (medications t) med_id ''active'' (JBool True)) (\<lambda>m1.
          bindE (del_if_present m1 med_id ''archived_date'') (\<lambda>m2.
          bindE (del_if_present m2 med_id ''archive_reason'') (\<lambda>m3.
          Inr (True, save_data (t\<lparr>medications := m3\<rparr>)))))
     else Inr (False, t))"

section \<open>Queries and handlers of the pages\<close>





text \<open>\<open>timedelta(days=d)\<close> in microseconds.\<close>

definition timedelta_days :: "int \<Rightarrow> int" where
  "timedelta_days d = d * 86400000000"

text \<open>
  \<open>datetime.fromisoformat\<close> is Python's library: it is a parameter, a function from the
  text to the instant it denotes, or to the exception raised for a text that does not
  denote one the cutoff can be compared with. It raises \<open>TypeError\<close> on anything but a
  string.
\<close>

fun parse_timestamp :: "(string \<Rightarrow> py_error + int) \<Rightarrow> jvalue \<Rightarrow> py_error + int" where
  "parse_timestamp fromisoformat (JStr s) = fromisoformat s"
| "parse_timestamp fromisoformat _ = Inl TypeError"

text \<open>The condition \<open>datetime.fromisoformat(se['timestamp']) >= cutoff_date\<close>.\<close>

definition not_before :: "(string \<Rightarrow> py_error + int) \<Rightarrow> int \<Rightarrow> jvalue \<Rightarrow> py_error + bool" where
  "not_before fromisoformat cutoff_date se =
     bindE (py_getitem se ''timestamp'') (\<lambda>ts.
     bindE (parse_timestamp fromisoformat ts) (\<lambda>d.
     Inr (d \<ge> cutoff_date)))"

text \<open>The handler of the button "Clean Old Data"; the number returned is \<open>se_removed\<close>,
  which the success message shows.\<close>

definition clean_old_data ::
  "(string \<Rightarrow> py_error + int) \<Rightarrow> env \<Rightarrow> tracker \<Rightarrow> py_error + (int \<times> tracker)" where
  "clean_old_data fromisoformat e t =
     (let cutoff_date = now e - timedelta_days 365 in
      bindE (py_len (side_effects t)) (\<lambda>original_side_effect_count.
      bindE (py_iter (side_effects t)) (\<lambda>ses.
      bindE (filterE (not_before fromisoformat cutoff_date) ses) (\<lambda>kept.
      let t' = save_data (t\<lparr>side_effects := JList kept\<rparr>) in
      bindE (py_len (side_effects t')) (\<lambda>n.
      Inr (original_side_effect_count - n, t'))))))"

subsection \<open>The per-medication analysis of the analytics page\<close>

text \<open>
  \<open>med_analysis\<close> is a local dict from a medication's name to a dict of three entries,
  modelled as a record. The name is whatever value the medication's \<open>'name'\<close> holds, so
  the keys are values; Python treats \<open>True\<close> and \<open>1\<close> (and \<open>False\<close> and \<open>0\<close>) as the
  same key, and refuses a list or a dict as a key. \<open>avg_severity\<close> starts as the integer
  0 and becomes the float that \<open>sum / len\<close> gives; a float is given by the rational
  number it stands for.
\<close>

record analysis =
  total_effects :: int
  avg_severity :: rat
  severities :: "jvalue list"

fun hashable :: "jvalue \<Rightarrow> bool" where
  "hashable (JList xs) = False"
| "hashable (JObj kvs) = False"
| "hashable v = True"

fun key_norm :: "jvalue \<Rightarrow> jvalue" where
  "key_norm (JBool b) = JInt (if b then 1 else 0)"
| "key_norm v = v"

text \<open>\<open>d[k]\<close> looked up, and \<open>d[k]\<close> changed in place, in a dict with such keys.\<close>

fun dfind :: "jvalue \<Rightarrow> (jvalue \<times> 'a) list \<Rightarrow> 'a option" where
  "dfind k [] = None"
| "dfind k (p # ps) = (if key_norm (fst p) = key_norm k then Some (snd p) else dfind k ps)"

fun dmodify :: "jvalue \<Rightarrow> ('a \<Rightarrow> 'a) \<Rightarrow> (jvalue \<times> 'a) list \<Rightarrow> (jvalue \<times> 'a) list" where
  "dmodify k f [] = []"
| "dmodify k f (p # ps) =
     (if key_norm (fst p) = key_norm k then (fst p, f (snd p)) # ps else p # dmodify k f ps)"

text \<open>\<open>d.get(k)\<close> for a key of any type: \<open>None\<close> when the key is absent.\<close>

fun py_get_key :: "jvalue \<Rightarrow> jvalue \<Rightarrow> py_error + jvalue" where
  "py_get_key (JObj kvs) (JStr k) = Inr (case map_of kvs k of Some v \<Rightarrow> v | None \<Rightarrow> JNull)"
| "py_get_key (JObj kvs) (JList xs) = Inl TypeError"
| "py_get_key (JObj kvs) (JObj ks) = Inl TypeError"
| "py_get_key (JObj kvs) k = Inr JNull"
| "py_get_key c k = Inl AttributeError"

text \<open>The name an effect is filed under: lines 640 to 643.\<close>

definition effect_med_name :: "tracker \<Rightarrow> jvalue \<Rightarrow> py_error + jvalue" where
  "effect_med_name t effect =
     bindE (py_getitem effect ''med_id'') (\<lambda>med_id.
     bindE (py_get_key (medications t) med_id) (\<lambda>med_info.
     if py_truth med_info then py_getitem med_info ''name''
     else Inr (JStr ''Unknown (Deleted)'')))"

text \<open>One round of the first loop.\<close>

definition analysis_step ::
  "tracker \<Rightarrow> (jvalue \<times> analysis) list \<Rightarrow> jvalue \<Rightarrow> py_error + (jvalue \<times> analysis) list" where
  "analysis_step t med_analysis effect =
     bindE (effect_med_name t effect) (\<lambda>med_name.
     if \<not> hashable med_name then Inl TypeError
     else
       let a1 = (if dfind med_name med_analysis = None
                 then med_analysis @
                      [(med_name, \<lparr>total_effects = 0, avg_severity = 0, severities = []\<rparr>)]
                 else med_analysis);
           a2 = dmodify med_name (\<lambda>d. d\<lparr>total_effects := total_effects d + 1\<rparr>) a1
       in bindE (py_getitem effect ''severity'') (\<lambda>sev.
          Inr (dmodify med_name (\<lambda>d. d\<lparr>severities := severities d @ [sev]\<rparr>) a2)))"

fun foldE :: "('b \<Rightarrow> 'a \<Rightarrow> py_error + 'b) \<Rightarrow> 'a list \<Rightarrow> 'b \<Rightarrow> py_error + 'b" where
  "foldE f [] acc = Inr acc"
| "foldE f (x # xs) acc = bindE (f acc x) (foldE f xs)"

text \<open>\<open>sum(xs)\<close>: starts from 0; a bool adds as 0 or 1; anything else has no \<open>+\<close> with
  an int.\<close>

fun py_sum :: "jvalue list \<Rightarrow> int \<Rightarrow> py_error + int" where
  "py_sum [] acc = Inr acc"
| "py_sum (JInt n # xs) acc = py_sum xs (acc + n)"
| "py_sum (JBool b # xs) acc = py_sum xs (acc + (if b then 1 else 0))"
| "py_sum (v # xs) acc = Inl TypeError"

text \<open>
  \<open>a / b\<close> for two integers. Python gives the float nearest to the exact quotient, a
  tie going to the float with the even significand; it raises \<open>OverflowError\<close> when
  that is beyond the range of a float, and gives 0.0 when the quotient is too small.
  A float has 53 significant bits and its last bit is worth at least \<open>2 ^ -1074\<close>.
  The two zeros of Python, 0.0 and -0.0, are the one number 0 here.
\<close>

text \<open>\<open>n.bit_length()\<close>\<close>

fun bit_length :: "nat \<Rightarrow> nat" where
  "bit_length n = (if n = 0 then 0 else Suc (bit_length (n div 2)))"

declare bit_length.simps [simp del]

text \<open>The integer nearest to \<open>n / d\<close>, the even one of two that are equally near, for
  \<open>0 \<le> n\<close> and \<open>0 < d\<close>.\<close>

definition round_half_even :: "int \<Rightarrow> int \<Rightarrow> int" where
  "round_half_even n d =
     (let q = n div d; r = n mod d
      in if 2 * r < d then q else if d < 2 * r then q + 1 else if even q then q else q + 1)"

text \<open>The \<open>e\<close> with \<open>2 ^ e \<le> a / b < 2 ^ (e + 1)\<close>, for \<open>0 < a\<close> and \<open>0 < b\<close>.\<close>

definition floor_log2 :: "int \<Rightarrow> int \<Rightarrow> int" where
  "floor_log2 a b =
     (let k = int (bit_length (nat a)) - int (bit_length (nat b))
      in if (if 0 \<le> k then 2 ^ nat k * b \<le> a else b \<le> 2 ^ nat (- k) * a) then k else k - 1)"

text \<open>The float nearest to \<open>a / b\<close>, for \<open>0 < a\<close> and \<open>0 < b\<close>: \<open>s\<close> is the exponent of
  its last bit and \<open>n\<close> its significand; \<open>None\<close> when it is beyond the largest float.\<close>

definition float_of_ratio :: "int \<Rightarrow> int \<Rightarrow> rat option" where
  "float_of_ratio a b =
     (let s = max (floor_log2 a b) (- 1022) - 52;
          n = (if 0 \<le> s then round_half_even a (b * 2 ^ nat s)
               else round_half_even (a * 2 ^ nat (- s)) b);
          r = (if 0 \<le> s then of_int (n * 2 ^ nat s) else of_int n / of_int (2 ^ nat (- s)))
      in if 2 ^ 1024 \<le> r then None else Some r)"

definition py_truediv :: "int \<Rightarrow> int \<Rightarrow> py_error + rat" where
  "py_truediv a b =
     (if b = 0 then Inl ZeroDivisionError
      else if a = 0 then Inr 0
      else (case float_of_ratio \<bar>a\<bar> \<bar>b\<bar> of
              None \<Rightarrow> Inl OverflowError
            | Some r \<Rightarrow> Inr (if (a < 0) \<noteq> (b < 0) then - r else r)))"

text \<open>One round of the second loop: line 657.\<close>

definition set_avg_severity :: "analysis \<Rightarrow> py_error + analysis" where
  "set_avg_severity data =
     bindE (py_sum (severities data) 0) (\<lambda>s.
     bindE (py_truediv s (int (length (severities data)))) (\<lambda>a.
     Inr (data\<lparr>avg_severity := a\<rparr>)))"

fun averages :: "(jvalue \<times> analysis) list \<Rightarrow> py_error + (jvalue \<times> analysis) list" where
  "averages [] = Inr []"
| "averages (p # ps) =
     bindE (set_avg_severity (snd p)) (\<lambda>d.
     bindE (averages ps) (\<lambda>r. Inr ((fst p, d) # r)))"

text \<open>Lines 638 to 657. The page runs them only when \<open>tracker.side_effects\<close> is
  not empty.\<close>

definition med_analysis :: "tracker \<Rightarrow> py_error + (jvalue \<times> analysis) list" where
  "med_analysis t =
     bindE (py_iter (side_effects t)) (\<lambda>effects.
     bindE (foldE (analysis_step t) effects []) averages)"

section \<open>Histories of calls\<close>

text \<open>
  What the pages do to the tracker, one call after the other: the methods of
  \<open>MedicationTracker\<close>, the assignments to \<open>tracker.side_effects\<close> (lines 390, 455 and
  488), \<open>save_data\<close> on its own (line 491), and a new start of the program, which
  builds a new \<open>MedicationTracker\<close> over the file as it is. Each call comes with its
  moment, \<open>datetime.now()\<close> and the \<open>isoformat\<close> text of it. \<open>uuid.uuid4\<close> is Python's
  library: \<open>gen i\<close> is the string that its call number \<open>i\<close> gives, counted from the
  first start of the program on and over all later starts, and the number of calls made
  so far is kept next to the tracker. \<open>add_medication\<close>, \<open>log_side_effect\<close> and
  \<open>log_mood\<close> call it once each.
\<close>

datatype call =
    Add_medication string string string "string list" string
  | Log_side_effect string string int string
  | Log_mood int string
  | Delete_medication string
  | Archive_medication string string
  | Reactivate_medication string
  | Assign_side_effects jvalue
  | Save_data
  | Restart

fun perform ::
  "(nat \<Rightarrow> string) \<Rightarrow> call \<times> int \<times> string \<Rightarrow> nat \<times> tracker \<Rightarrow> py_error + (nat \<times> tracker)" where
  "perform gen (Add_medication name dosage frequency times' notes, n, isotext) (k, t) =
     bindE (add_medication \<lparr>uuid4 = gen k, now = n, now_isoformat = isotext\<rparr> t
              name dosage frequency times' notes)
       (\<lambda>r. Inr (Suc k, snd r))"
| "perform gen (Log_side_effect med_id effect severity notes, n, isotext) (k, t) =
     bindE (log_side_effect \<lparr>uuid4 = gen k, now = n, now_isoformat = isotext\<rparr> t
              med_id effect severity notes)
       (\<lambda>t'. Inr (Suc k, t'))"
| "perform gen (Log_mood mood_score notes, n, isotext) (k, t) =
     bindE (log_mood \<lparr>uuid4 = gen k, now = n, now_isoformat = isotext\<rparr> t mood_score notes)
       (\<lambda>t'. Inr (Suc k, t'))"
| "perform gen (Delete_medication med_id, n, isotext) (k, t) =
     bindE (delete_medication t med_id) (\<lambda>r. Inr (k, snd r))"
| "perform gen (Archive_medication med_id reason, n, isotext) (k, t) =
     bindE (archive_medication \<lparr>uuid4 = gen k, now = n, now_isoformat = isotext\<rparr> t med_id reason)
       (\<lambda>r. Inr (k, snd r))"
| "perform gen (Reactivate_medication med_id, n, isotext) (k, t) =
     bindE (reactivate_medication t med_id) (\<lambda>r. Inr (k, snd r))"
| "perform gen (Assign_side_effects v, n, isotext) (k, t) = Inr (k, t\<lparr>side_effects := v\<rparr>)"
| "perform gen (Save_data, n, isotext) (k, t) = Inr (k, save_data t)"
| "perform gen (Restart, n, isotext) (k, t) = Inr (k, new_tracker (data_file t))"

text \<open>A history from a state on; an exception ends it.\<close>

fun run ::
  "(nat \<Rightarrow> string) \<Rightarrow> (call \<times> int \<times> string) list \<Rightarrow> nat \<times> tracker
     \<Rightarrow> py_error + (nat \<times> tracker)" where
  "run gen [] st = Inr st"
| "run gen (c # cs) st = bindE (perform gen c st) (run gen cs)"

section \<open>Basic facts\<close>

lemma bindE_Inl [simp]: "bindE (Inl e) f = Inl e"
  by (simp add: bindE_def)

lemma bindE_Inr [simp]: "bindE (Inr x) f = f x"
  by (simp add: bindE_def)

subsection \<open>Dicts as association lists\<close>

lemma delete_filter: "AList.delete k kvs = filter (\<lambda>kv. fst kv \<noteq> k) kvs"
  by (induction kvs) (auto simp: AList.delete_eq)

lemma update_fresh: "k \<notin> fst ` set al \<Longrightarrow> AList.update k v al = al @ [(k, v)]"
  by (induction al) auto

lemma map_of_update_same: "map_of (AList.update k v al) k = Some v"
  by (simp add: AList.update_conv')

lemma map_of_key_present: "map_of ms k = Some v \<Longrightarrow> k \<in> fst ` set ms"
  by (metis map_of_SomeD fst_conv image_eqI)




subsection \<open>Comprehensions and loops that do not raise\<close>


lemma filterE_as_filter:
  assumes "\<forall>x\<in>set xs. p x = Inr (q x)"
  shows "filterE p xs = Inr (filter q xs)"
  using assms by (induction xs) simp_all

lemma foldE_snoc: "foldE f (xs @ [x]) acc = bindE (foldE f xs acc) (\<lambda>a. f a x)"
  by (induction xs arbitrary: acc) (auto simp: bindE_def split: sum.splits)

lemma averages_map:
  assumes "\<forall>p\<in>set acc. set_avg_severity (snd p) = Inr (g (snd p))"
  shows "averages acc = Inr (map (\<lambda>p. (fst p, g (snd p))) acc)"
  using assms by (induction acc) simp_all

lemma py_sum_ints: "py_sum (map JInt zs) a = Inr (a + sum_list zs)"
  by (induction zs arbitrary: a) simp_all

subsection \<open>The dict of the analysis\<close>

lemma dfind_append:
  "dfind k (a @ b) = (case dfind k a of Some v \<Rightarrow> Some v | None \<Rightarrow> dfind k b)"
  by (induction a) auto

lemma dfind_dmodify:
  "dfind k (dmodify k' f acc) =
     (if key_norm k = key_norm k' then map_option f (dfind k acc) else dfind k acc)"
  by (induction acc) auto

lemma keys_dmodify: "map fst (dmodify k f acc) = map fst acc"
  by (induction acc) auto

lemma dfind_map_values:
  "dfind k (map (\<lambda>p. (fst p, g (snd p))) acc) = map_option g (dfind k acc)"
  by (induction acc) auto

lemma dfind_str_keys:
  "map fst acc = map JStr ks \<Longrightarrow> dfind (JStr n) acc = map_of acc (JStr n)"
proof (induction acc arbitrary: ks)
  case Nil
  show ?case by simp
next
  case (Cons p acc)
  then obtain k ks' where ks: "ks = k # ks'" "fst p = JStr k" "map fst acc = map JStr ks'"
    by (cases ks) auto
  with Cons.IH [of ks'] show ?case by (cases p) auto
qed

subsection \<open>The nested statements on a medication that is a dict\<close>

lemma py_setitem2_dict:
  assumes "map_of ms med_id = Some (JObj fs)"
  shows "py_setitem2 (JObj ms) med_id k v =
           Inr (JObj (AList.update med_id (JObj (AList.update k v fs)) ms))"
  using assms by (simp add: py_setitem2_def)

lemma del_if_present_dict:
  assumes "map_of ms med_id = Some (JObj fs)"
  shows "del_if_present (JObj ms) med_id k =
           Inr (JObj (AList.update med_id (JObj (AList.delete k fs)) ms))"
proof (cases "k \<in> fst ` set fs")
  case True
  with assms show ?thesis
    by (simp add: del_if_present_def py_contains2_def py_delitem2_def)
next
  case False
  then have "AList.delete k fs = fs" by simp
  moreover from assms have "AList.update med_id (JObj fs) ms = ms"
    by (rule AList.update_triv)
  ultimately show ?thesis
    using assms False by (simp add: del_if_present_def py_contains2_def)
qed

lemma reactivate_medication_dict:
  assumes "medications t = JObj ms" and "map_of ms med_id = Some (JObj fs)"
  shows "reactivate_medication t med_id =
           Inr (True, save_data (t\<lparr>medications :=
             JObj (AList.update med_id
               (JObj (AList.delete ''archive_reason'' (AList.delete ''archived_date''
                  (AList.update ''active'' (JBool True) fs)))) ms)\<rparr>))"
  using assms
  by (simp add: reactivate_medication_def map_of_key_present py_setitem2_dict
      del_if_present_dict map_of_update_same)


subsection \<open>The \<open>try\<close> block of loading\<close>

lemma load_data_try_fields:
  "load_data_try t =
     (case data_file t of
        Document (JObj kvs) \<Rightarrow>
          Inr (t\<lparr>medications := (case map_of kvs ''medications'' of Some v \<Rightarrow> v | None \<Rightarrow> JObj []),
                 logs := (case map_of kvs ''logs'' of Some v \<Rightarrow> v | None \<Rightarrow> JList []),
                 mood_logs := (case map_of kvs ''mood_logs'' of Some v \<Rightarrow> v | None \<Rightarrow> JList []),
                 side_effects :=
                   (case map_of kvs ''side_effects'' of Some v \<Rightarrow> v | None \<Rightarrow> JList [])\<rparr>)
      | Document _ \<Rightarrow> Inl AttributeError
      | Malformed \<Rightarrow> Inl JSONDecodeError
      | _ \<Rightarrow> Inl OSError)"
  by (simp add: load_data_try_def split: disk.splits jvalue.splits)

section \<open>Loading and saving\<close>

text \<open>
  C8. \<open>load_data\<close> never raises, and what it leaves in the four collections depends on
  the file alone, so it is what a new \<open>MedicationTracker\<close> has. With no file, with a file
  that cannot be read and with a file that is not JSON, the four collections are empty.
  With a document that is a JSON object, each collection is the value under its key,
  whatever that value is, and empty when the key is missing. A document that is valid
  JSON but not an object has no keys: \<open>data.get\<close> raises inside the \<open>try\<close>, and the
  collections are empty as well.
\<close>

theorem load_data_cases:
  "load_data t = new_tracker (data_file t)
   \<and> new_tracker Missing =
       \<lparr>medications = JObj [], logs = JList [], mood_logs = JList [], side_effects = JList [],
        data_file = Missing\<rparr>
   \<and> new_tracker Unreadable =
       \<lparr>medications = JObj [], logs = JList [], mood_logs = JList [], side_effects = JList [],
        data_file = Unreadable\<rparr>
   \<and> new_tracker Malformed =
       \<lparr>medications = JObj [], logs = JList [], mood_logs = JList [], side_effects = JList [],
        data_file = Malformed\<rparr>
   \<and> new_tracker (Document (JObj kvs)) =
       \<lparr>medications = (case map_of kvs ''medications'' of Some v \<Rightarrow> v | None \<Rightarrow> JObj []),
        logs = (case map_of kvs ''logs'' of Some v \<Rightarrow> v | None \<Rightarrow> JList []),
        mood_logs = (case map_of kvs ''mood_logs'' of Some v \<Rightarrow> v | None \<Rightarrow> JList []),
        side_effects = (case map_of kvs ''side_effects'' of Some v \<Rightarrow> v | None \<Rightarrow> JList []),
        data_file = Document (JObj kvs)\<rparr>
   \<and> new_tracker (Document JNull) =
       \<lparr>medications = JObj [], logs = JList [], mood_logs = JList [], side_effects = JList [],
        data_file = Document JNull\<rparr>
   \<and> new_tracker (Document (JBool b)) =
       \<lparr>medications = JObj [], logs = JList [], mood_logs = JList [], side_effects = JList [],
        data_file = Document (JBool b)\<rparr>
   \<and> new_tracker (Document (JInt n)) =
       \<lparr>medications = JObj [], logs = JList [], mood_logs = JList [], side_effects = JList [],
        data_file = Document (JInt n)\<rparr>
   \<and> new_tracker (Document (JStr s)) =
       \<lparr>medications = JObj [], logs = JList [], mood_logs = JList [], side_effects = JList [],
        data_file = Document (JStr s)\<rparr>
   \<and> new_tracker (Document (JList xs)) =
       \<lparr>medications = JObj [], logs = JList [], mood_logs = JList [], side_effects = JList [],
        data_file = Document (JList xs)\<rparr>"
  by (simp add: new_tracker_def load_data_def load_data_try_fields initialize_empty_data_def
      split: disk.splits jvalue.splits)

text \<open>
  C5. After \<open>save_data\<close>, loading the file it wrote, into the same object or into a new
  \<open>MedicationTracker\<close>, gives the four collections exactly as they were: the same
  values under the same keys, in the same order. The statement is about the tree that is
  written; that \<open>json.dump\<close> and \<open>json.load\<close> are inverse on such trees is taken from
  Python's library.
\<close>

theorem save_load_roundtrip:
  "medications (load_data (t0\<lparr>data_file := data_file (save_data t)\<rparr>)) = medications t
   \<and> logs (load_data (t0\<lparr>data_file := data_file (save_data t)\<rparr>)) = logs t
   \<and> mood_logs (load_data (t0\<lparr>data_file := data_file (save_data t)\<rparr>)) = mood_logs t
   \<and> side_effects (load_data (t0\<lparr>data_file := data_file (save_data t)\<rparr>)) = side_effects t
   \<and> load_data (save_data t) = save_data t
   \<and> new_tracker (data_file (save_data t)) = save_data t"
  by (simp add: load_data_def load_data_try_def save_data_def new_tracker_def)

section \<open>Adding a medication\<close>

lemma bindE_eq_Inr: "bindE m f = Inr y \<longleftrightarrow> (\<exists>x. m = Inr x \<and> f x = Inr y)"
  by (cases m) simp_all

lemma new_tracker_save: "new_tracker (data_file (save_data t)) = save_data t"
  by (simp add: load_data_def load_data_try_def save_data_def new_tracker_def)

lemma py_getitem_Inr:
  assumes "py_getitem c k = Inr v"
  shows "\<exists>ms. c = JObj ms \<and> map_of ms k = Some v"
  using assms by (cases c) (simp_all split: option.splits)

lemma py_setitem_Inr:
  assumes "py_setitem c k v = Inr c'"
  shows "\<exists>fs. c = JObj fs \<and> c' = JObj (AList.update k v fs)"
  using assms by (cases c) simp_all

lemma py_setitem2_Inr:
  assumes "py_setitem2 c k1 k2 v = Inr c'"
  shows "\<exists>ms fs. c = JObj ms \<and> map_of ms k1 = Some (JObj fs)
           \<and> c' = JObj (AList.update k1 (JObj (AList.update k2 v fs)) ms)"
proof -
  from assms obtain inner inner' where g: "py_getitem c k1 = Inr inner"
    and s: "py_setitem inner k2 v = Inr inner'" and o: "py_setitem c k1 inner' = Inr c'"
    unfolding py_setitem2_def bindE_eq_Inr by blast
  from g obtain ms where ms: "c = JObj ms" "map_of ms k1 = Some inner"
    using py_getitem_Inr by blast
  from s obtain fs where fs: "inner = JObj fs" "inner' = JObj (AList.update k2 v fs)"
    using py_setitem_Inr by blast
  from o ms fs show ?thesis by simp
qed

lemma py_setitem2_keys:
  assumes "py_setitem2 c k1 k2 v = Inr c'" and "c = JObj ms"
  shows "\<exists>ms'. c' = JObj ms' \<and> fst ` set ms' = fst ` set ms"
proof -
  from py_setitem2_Inr [OF assms(1)] assms(2) obtain fs
    where "map_of ms k1 = Some (JObj fs)"
      and c': "c' = JObj (AList.update k1 (JObj (AList.update k2 v fs)) ms)"
    by auto
  then have "k1 \<in> fst ` set ms" by (simp add: map_of_key_present)
  then have "fst ` set (AList.update k1 (JObj (AList.update k2 v fs)) ms) = fst ` set ms"
    by (simp add: AList.dom_update insert_absorb)
  with c' show ?thesis by blast
qed

lemma del_if_present_keys:
  assumes "del_if_present c k1 k2 = Inr c'" and "c = JObj ms"
  shows "\<exists>ms'. c' = JObj ms' \<and> fst ` set ms' = fst ` set ms"
proof -
  from assms(1) obtain b where b: "py_contains2 k2 c k1 = Inr b"
    and r: "(if b then py_delitem2 c k1 k2 else Inr c) = Inr c'"
    unfolding del_if_present_def bindE_eq_Inr by blast
  show ?thesis
  proof (cases b)
    case False
    with r have "c' = c" by simp
    with assms(2) show ?thesis by blast
  next
    case True
    with r have "py_delitem2 c k1 k2 = Inr c'" by simp
    then obtain inner inner' where g: "py_getitem c k1 = Inr inner"
      and o: "py_setitem c k1 inner' = Inr c'"
      unfolding py_delitem2_def bindE_eq_Inr by blast
    from py_getitem_Inr [OF g] assms(2) have "map_of ms k1 = Some inner" by simp
    then have "k1 \<in> fst ` set ms" by (rule map_of_key_present)
    then have keys: "fst ` set (AList.update k1 inner' ms) = fst ` set ms"
      by (simp add: AList.dom_update insert_absorb)
    from o assms(2) have "c' = JObj (AList.update k1 inner' ms)" by simp
    with keys show ?thesis by blast
  qed
qed

lemma perform_keys:
  assumes step: "perform gen c (k, t) = Inr (k', t')"
    and mem: "medications t = JObj ms" "fst ` set ms \<subseteq> gen ` {..<k}"
    and disk: "medications (new_tracker (data_file t)) = JObj fs" "fst ` set fs \<subseteq> gen ` {..<k}"
  shows "\<exists>ms' fs'. medications t' = JObj ms' \<and> fst ` set ms' \<subseteq> gen ` {..<k'}
           \<and> medications (new_tracker (data_file t')) = JObj fs'
           \<and> fst ` set fs' \<subseteq> gen ` {..<k'}"
proof -
  obtain op n isotext where c: "c = (op, n, isotext)" by (cases c) auto
  have saved: "\<exists>ms' fs'. medications (save_data u) = JObj ms' \<and> fst ` set ms' \<subseteq> gen ` {..<j}
           \<and> medications (new_tracker (data_file (save_data u))) = JObj fs'
           \<and> fst ` set fs' \<subseteq> gen ` {..<j}"
    if "medications u = JObj xs" "fst ` set xs \<subseteq> gen ` {..<j}" for u xs j
    using that by (simp add: new_tracker_save) (simp add: save_data_def)
  have grow: "gen ` {..<k} \<subseteq> gen ` {..<Suc k}" by auto
  show ?thesis
  proof (cases op)
    case (Add_medication name dosage frequency times' notes')
    with step c have k': "k' = Suc k"
      and t': "t' = save_data (t\<lparr>medications :=
                 JObj (AList.update (gen k) (new_medication
                   \<lparr>uuid4 = gen k, now = n, now_isoformat = isotext\<rparr>
                   name dosage frequency times' notes') ms)\<rparr>)"
      by (auto simp: add_medication_def mem(1) Let_def)
    have "fst ` set (AList.update (gen k) (new_medication
                   \<lparr>uuid4 = gen k, now = n, now_isoformat = isotext\<rparr>
                   name dosage frequency times' notes') ms) \<subseteq> gen ` {..<Suc k}"
      using mem(2) by (auto simp: AList.dom_update)
    then show ?thesis unfolding k' t' by (intro saved) simp_all
  next
    case (Log_side_effect med_id effect severity notes')
    with step c obtain xs where k': "k' = Suc k" and t': "t' = save_data (t\<lparr>side_effects := xs\<rparr>)"
      by (auto simp: log_side_effect_def bindE_eq_Inr)
    show ?thesis unfolding k' t' using mem grow by (intro saved [of _ ms]) auto
  next
    case (Log_mood mood_score notes')
    with step c obtain xs where k': "k' = Suc k" and t': "t' = save_data (t\<lparr>mood_logs := xs\<rparr>)"
      by (auto simp: log_mood_def bindE_eq_Inr)
    show ?thesis unfolding k' t' using mem grow by (intro saved [of _ ms]) auto
  next
    case (Delete_medication med_id)
    show ?thesis
    proof (cases "med_id \<in> fst ` set ms")
      case False
      with step c Delete_medication mem(1) have "k' = k" "t' = t"
        by (auto simp: delete_medication_def)
      with mem disk show ?thesis by simp
    next
      case True
      with step c Delete_medication mem(1) have k': "k' = k"
        and t': "t' = save_data (t\<lparr>medications := JObj (AList.delete med_id ms)\<rparr>)"
        by (auto simp: delete_medication_def)
      have "fst ` set (AList.delete med_id ms) \<subseteq> gen ` {..<k}"
        using mem(2) AList.dom_delete_subset [of med_id ms] by blast
      then show ?thesis unfolding k' t' by (intro saved) simp_all
    qed
  next
    case (Archive_medication med_id reason)
    let ?e = "\<lparr>uuid4 = gen k, now = n, now_isoformat = isotext\<rparr>"
    show ?thesis
    proof (cases "med_id \<in> fst ` set ms")
      case False
      with step c Archive_medication mem(1) have "k' = k" "t' = t"
        by (auto simp: archive_medication_def)
      with mem disk show ?thesis by simp
    next
      case True
      with step c Archive_medication mem(1) obtain m1 m2 m3 where k': "k' = k"
        and m: "py_setitem2 (JObj ms) med_id ''active'' (JBool False) = Inr m1"
          "py_setitem2 m1 med_id ''archived_date'' (JStr isotext) = Inr m2"
          "py_setitem2 m2 med_id ''archive_reason'' (JStr reason) = Inr m3"
        and t': "t' = save_data (t\<lparr>medications := m3\<rparr>)"
        by (auto simp: archive_medication_def bindE_eq_Inr)
      from py_setitem2_keys [OF m(1) refl] obtain x1
        where x1: "m1 = JObj x1" "fst ` set x1 = fst ` set ms" by blast
      from py_setitem2_keys [OF m(2) x1(1)] obtain x2
        where x2: "m2 = JObj x2" "fst ` set x2 = fst ` set x1" by blast
      from py_setitem2_keys [OF m(3) x2(1)] obtain x3
        where x3: "m3 = JObj x3" "fst ` set x3 = fst ` set x2" by blast
      from x1 x2 x3 mem(2) have "fst ` set x3 \<subseteq> gen ` {..<k}" by simp
      then show ?thesis unfolding k' t' x3(1) by (intro saved) simp_all
    qed
  next
    case (Reactivate_medication med_id)
    show ?thesis
    proof (cases "med_id \<in> fst ` set ms")
      case False
      with step c Reactivate_medication mem(1) have "k' = k" "t' = t"
        by (auto simp: reactivate_medication_def)
      with mem disk show ?thesis by simp
    next
      case True
      with step c Reactivate_medication mem(1) obtain m1 m2 m3 where k': "k' = k"
        and m: "py_setitem2 (JObj ms) med_id ''active'' (JBool True) = Inr m1"
          "del_if_present m1 med_id ''archived_date'' = Inr m2"
          "del_if_present m2 med_id ''archive_reason'' = Inr m3"
        and t': "t' = save_data (t\<lparr>medications := m3\<rparr>)"
        by (auto simp: reactivate_medication_def bindE_eq_Inr)
      from py_setitem2_keys [OF m(1) refl] obtain x1
        where x1: "m1 = JObj x1" "fst ` set x1 = fst ` set ms" by blast
      from del_if_present_keys [OF m(2) x1(1)] obtain x2
        where x2: "m2 = JObj x2" "fst ` set x2 = fst ` set x1" by blast
      from del_if_present_keys [OF m(3) x2(1)] obtain x3
        where x3: "m3 = JObj x3" "fst ` set x3 = fst ` set x2" by blast
      from x1 x2 x3 mem(2) have "fst ` set x3 \<subseteq> gen ` {..<k}" by simp
      then show ?thesis unfolding k' t' x3(1) by (intro saved) simp_all
    qed
  next
    case (Assign_side_effects v)
    with step c have "k' = k" "t' = t\<lparr>side_effects := v\<rparr>" by auto
    with mem disk show ?thesis by simp
  next
    case Save_data
    with step c have k': "k' = k" and t': "t' = save_data t" by auto
    show ?thesis unfolding k' t' using mem by (intro saved)
  next
    case Restart
    with step c have "k' = k" "t' = new_tracker (data_file t)" by auto
    moreover have "data_file (new_tracker d) = d" for d
      by (simp add: new_tracker_def load_data_def load_data_try_fields initialize_empty_data_def
          split: disk.splits jvalue.splits)
    ultimately show ?thesis using disk by simp
  qed
qed

lemma run_keys:
  assumes "run gen cs (k, t) = Inr (k', t')"
    and "medications t = JObj ms" "fst ` set ms \<subseteq> gen ` {..<k}"
    and "medications (new_tracker (data_file t)) = JObj fs" "fst ` set fs \<subseteq> gen ` {..<k}"
  shows "\<exists>ms' fs'. medications t' = JObj ms' \<and> fst ` set ms' \<subseteq> gen ` {..<k'}
           \<and> medications (new_tracker (data_file t')) = JObj fs'
           \<and> fst ` set fs' \<subseteq> gen ` {..<k'}"
  using assms
proof (induction cs arbitrary: k t ms fs)
  case Nil
  then show ?case by simp
next
  case (Cons c cs)
  from Cons.prems(1) obtain k1 t1 where one: "perform gen c (k, t) = Inr (k1, t1)"
    and rest: "run gen cs (k1, t1) = Inr (k', t')"
    by (auto simp: bindE_eq_Inr)
  from perform_keys [OF one Cons.prems(2-5)] obtain ms1 fs1
    where "medications t1 = JObj ms1" "fst ` set ms1 \<subseteq> gen ` {..<k1}"
      "medications (new_tracker (data_file t1)) = JObj fs1" "fst ` set fs1 \<subseteq> gen ` {..<k1}"
    by blast
  with rest show ?case by (rule Cons.IH)
qed


lemma add_medication_dict:
  assumes "medications t = JObj ms" and "uuid4 e \<notin> fst ` set ms"
  shows "add_medication e t name dosage frequency times' notes =
           Inr (uuid4 e, save_data (t\<lparr>medications :=
                  JObj (ms @ [(uuid4 e, new_medication e name dosage frequency times' notes)])\<rparr>))"
  using assms
  by (simp add: add_medication_def update_fresh Let_def)


text \<open>
  C6. Take any state that a history of calls reaches from the first start of the
  program, and let \<open>uuid.uuid4\<close> not have given the same string twice, the next one
  included. Then \<open>medications\<close> is a dict, and the string that \<open>uuid4\<close> gives next is
  none of its keys and none of the strings given before, in this run of the program or
  in an earlier one. \<open>add_medication\<close> with it returns that string; the dict is the old
  one followed by the one new entry, whose record has \<open>active\<close> true, \<open>created_date\<close>
  the current time and the name that was passed; and the file holds the four
  collections. Nothing is asked of the name, the dosage or the times: the statement
  holds when a medication of the same name is there already. The program itself never
  compares the new id with the old ones: that it is new comes from \<open>uuid4\<close> and from
  the fact, shown here, that every key of the dict is a string \<open>uuid4\<close> gave earlier.
\<close>

theorem add_medication_fresh_id:
  assumes history: "run gen calls (0, new_tracker Missing) = Inr (k, t)"
    and unique: "distinct (map gen [0..<Suc k])"
  shows "\<exists>ms. medications t = JObj ms
           \<and> gen k \<notin> fst ` set ms
           \<and> gen k \<notin> gen ` {..<k}
           \<and> add_medication \<lparr>uuid4 = gen k, now = n, now_isoformat = isotext\<rparr> t
                 name dosage frequency times' notes =
               Inr (gen k, save_data (t\<lparr>medications := JObj (ms @ [(gen k,
                      new_medication \<lparr>uuid4 = gen k, now = n, now_isoformat = isotext\<rparr>
                        name dosage frequency times' notes)])\<rparr>))
           \<and> py_getitem (new_medication \<lparr>uuid4 = gen k, now = n, now_isoformat = isotext\<rparr>
                 name dosage frequency times' notes) ''active'' = Inr (JBool True)
           \<and> py_getitem (new_medication \<lparr>uuid4 = gen k, now = n, now_isoformat = isotext\<rparr>
                 name dosage frequency times' notes) ''created_date'' = Inr (JStr isotext)
           \<and> py_getitem (new_medication \<lparr>uuid4 = gen k, now = n, now_isoformat = isotext\<rparr>
                 name dosage frequency times' notes) ''name'' = Inr (JStr name)
           \<and> data_file (save_data (t\<lparr>medications := JObj (ms @ [(gen k,
                      new_medication \<lparr>uuid4 = gen k, now = n, now_isoformat = isotext\<rparr>
                        name dosage frequency times' notes)])\<rparr>))
               = Document (JObj
                   [(''medications'', JObj (ms @ [(gen k,
                      new_medication \<lparr>uuid4 = gen k, now = n, now_isoformat = isotext\<rparr>
                        name dosage frequency times' notes)])),
                    (''logs'', logs t), (''mood_logs'', mood_logs t),
                    (''side_effects'', side_effects t)])"
proof -
  have start: "medications (new_tracker Missing) = JObj []"
    "medications (new_tracker (data_file (new_tracker Missing))) = JObj []"
    by (simp_all add: new_tracker_def load_data_def initialize_empty_data_def)
  have none: "fst ` set ([] :: (string \<times> jvalue) list) \<subseteq> gen ` {..<0}" by simp
  from run_keys [OF history start(1) none start(2) none] obtain ms
    where ms: "medications t = JObj ms" and issued: "fst ` set ms \<subseteq> gen ` {..<k}"
    by blast
  from unique have "inj_on gen (set [0..<Suc k])"
    by (simp only: distinct_map)
  then have new: "gen k \<notin> gen ` {..<k}"
    by (auto simp: inj_on_def)
  with issued have fresh: "gen k \<notin> fst ` set ms" by blast
  let ?e = "\<lparr>uuid4 = gen k, now = n, now_isoformat = isotext\<rparr>"
  from fresh have "uuid4 ?e \<notin> fst ` set ms" by simp
  from add_medication_dict [OF ms this]
  have call: "add_medication ?e t name dosage frequency times' notes =
           Inr (gen k, save_data (t\<lparr>medications :=
                  JObj (ms @ [(gen k, new_medication ?e name dosage frequency times' notes)])\<rparr>))"
    by simp
  show ?thesis
  proof (intro exI conjI)
    show "medications t = JObj ms" by (fact ms)
    show "gen k \<notin> fst ` set ms" by (fact fresh)
    show "gen k \<notin> gen ` {..<k}" by (fact new)
    show "add_medication ?e t name dosage frequency times' notes =
           Inr (gen k, save_data (t\<lparr>medications :=
                  JObj (ms @ [(gen k, new_medication ?e name dosage frequency times' notes)])\<rparr>))"
      by (fact call)
  qed (simp_all add: new_medication_def save_data_def)
qed

theorem add_medication_fresh_id_witness:
  "run (\<lambda>i. [''1b4e28ba-2fa1-4d3b-a3f5-5f3c8a1e9d10'', ''9c5b94b1-35ad-49bb-b118-8e8fc24abf80'', ''6fa459ea-ee8a-4ca4-894e-db77e160355e'', ''16fd2706-8baf-433b-82eb-8c7fada847da''] ! i)
     [(Add_medication ''Aspirin'' ''100mg'' ''2 times daily'' [''08:00'', ''20:00''] [],
         1714557600000000, ''2024-05-01T10:00:00''),
      (Add_medication ''Ibuprofen'' ''200mg'' ''1 times daily'' [''09:00''] [],
         1714557660000000, ''2024-05-01T10:01:00''),
      (Log_side_effect ''1b4e28ba-2fa1-4d3b-a3f5-5f3c8a1e9d10'' ''Headache'' 2 [],
         1714557720000000, ''2024-05-01T10:02:00''),
      (Restart, 1714557780000000, ''2024-05-01T10:03:00''),
      (Delete_medication ''1b4e28ba-2fa1-4d3b-a3f5-5f3c8a1e9d10'',
         1714557840000000, ''2024-05-01T10:04:00'')]
     (0, new_tracker Missing) = Inr (3, 
       \<lparr>medications = JObj [(''9c5b94b1-35ad-49bb-b118-8e8fc24abf80'',
          JObj [(''name'', JStr ''Ibuprofen''), (''dosage'', JStr ''200mg''),
                (''frequency'', JStr ''1 times daily''), (''times'', JList [JStr ''09:00'']),
                (''notes'', JStr []), (''created_date'', JStr ''2024-05-01T10:01:00''),
                (''active'', JBool True)])],
       logs = JList [], mood_logs = JList [],
       side_effects = JList [JObj [(''id'', JStr ''6fa459ea-ee8a-4ca4-894e-db77e160355e''), (''med_id'', JStr ''1b4e28ba-2fa1-4d3b-a3f5-5f3c8a1e9d10''),
          (''timestamp'', JStr ''2024-05-01T10:02:00''), (''effect'', JStr ''Headache''),
          (''severity'', JInt 2), (''notes'', JStr [])]],
       data_file = Document (JObj
         [(''medications'', JObj [(''9c5b94b1-35ad-49bb-b118-8e8fc24abf80'',
            JObj [(''name'', JStr ''Ibuprofen''), (''dosage'', JStr ''200mg''),
                  (''frequency'', JStr ''1 times daily''), (''times'', JList [JStr ''09:00'']),
                  (''notes'', JStr []), (''created_date'', JStr ''2024-05-01T10:01:00''),
                  (''active'', JBool True)])]),
          (''logs'', JList []), (''mood_logs'', JList []),
          (''side_effects'', JList [JObj [(''id'', JStr ''6fa459ea-ee8a-4ca4-894e-db77e160355e''), (''med_id'', JStr ''1b4e28ba-2fa1-4d3b-a3f5-5f3c8a1e9d10''),
             (''timestamp'', JStr ''2024-05-01T10:02:00''), (''effect'', JStr ''Headache''),
             (''severity'', JInt 2), (''notes'', JStr [])]])])\<rparr>
      )
   \<and> distinct (map (\<lambda>i. [''1b4e28ba-2fa1-4d3b-a3f5-5f3c8a1e9d10'', ''9c5b94b1-35ad-49bb-b118-8e8fc24abf80'', ''6fa459ea-ee8a-4ca4-894e-db77e160355e'', ''16fd2706-8baf-433b-82eb-8c7fada847da''] ! i) [0..<Suc 3])
   \<and> (\<exists>ms. medications 
       \<lparr>medications = JObj [(''9c5b94b1-35ad-49bb-b118-8e8fc24abf80'',
          JObj [(''name'', JStr ''Ibuprofen''), (''dosage'', JStr ''200mg''),
                (''frequency'', JStr ''1 times daily''), (''times'', JList [JStr ''09:00'']),
                (''notes'', JStr []), (''created_date'', JStr ''2024-05-01T10:01:00''),
                (''active'', JBool True)])],
       logs = JList [], mood_logs = JList [],
       side_effects = JList [JObj [(''id'', JStr ''6fa459ea-ee8a-4ca4-894e-db77e160355e''), (''med_id'', JStr ''1b4e28ba-2fa1-4d3b-a3f5-5f3c8a1e9d10''),
          (''timestamp'', JStr ''2024-05-01T10:02:00''), (''effect'', JStr ''Headache''),
          (''severity'', JInt 2), (''notes'', JStr [])]],
       data_file = Document (JObj
         [(''medications'', JObj [(''9c5b94b1-35ad-49bb-b118-8e8fc24abf80'',
            JObj [(''name'', JStr ''Ibuprofen''), (''dosage'', JStr ''200mg''),
                  (''frequency'', JStr ''1 times daily''), (''times'', JList [JStr ''09:00'']),
                  (''notes'', JStr []), (''created_date'', JStr ''2024-05-01T10:01:00''),
                  (''active'', JBool True)])]),
          (''logs'', JList []), (''mood_logs'', JList []),
          (''side_effects'', JList [JObj [(''id'', JStr ''6fa459ea-ee8a-4ca4-894e-db77e160355e''), (''med_id'', JStr ''1b4e28ba-2fa1-4d3b-a3f5-5f3c8a1e9d10''),
             (''timestamp'', JStr ''2024-05-01T10:02:00''), (''effect'', JStr ''Headache''),
             (''severity'', JInt 2), (''notes'', JStr [])]])])\<rparr>
       = JObj ms
     \<and> ''16fd2706-8baf-433b-82eb-8c7fada847da'' \<notin> fst ` set ms
     \<and> ''16fd2706-8baf-433b-82eb-8c7fada847da'' \<notin> (\<lambda>i. [''1b4e28ba-2fa1-4d3b-a3f5-5f3c8a1e9d10'', ''9c5b94b1-35ad-49bb-b118-8e8fc24abf80'', ''6fa459ea-ee8a-4ca4-894e-db77e160355e'', ''16fd2706-8baf-433b-82eb-8c7fada847da''] ! i) ` {..<3}
     \<and> add_medication \<lparr>uuid4 = ''16fd2706-8baf-433b-82eb-8c7fada847da'', now = 1714557900000000, now_isoformat = ''2024-05-01T10:05:00''\<rparr>
           
       \<lparr>medications = JObj [(''9c5b94b1-35ad-49bb-b118-8e8fc24abf80'',
          JObj [(''name'', JStr ''Ibuprofen''), (''dosage'', JStr ''200mg''),
                (''frequency'', JStr ''1 times daily''), (''times'', JList [JStr ''09:00'']),
                (''notes'', JStr []), (''created_date'', JStr ''2024-05-01T10:01:00''),
                (''active'', JBool True)])],
       logs = JList [], mood_logs = JList [],
       side_effects = JList [JObj [(''id'', JStr ''6fa459ea-ee8a-4ca4-894e-db77e160355e''), (''med_id'', JStr ''1b4e28ba-2fa1-4d3b-a3f5-5f3c8a1e9d10''),
          (''timestamp'', JStr ''2024-05-01T10:02:00''), (''effect'', JStr ''Headache''),
          (''severity'', JInt 2), (''notes'', JStr [])]],
       data_file = Document (JObj
         [(''medications'', JObj [(''9c5b94b1-35ad-49bb-b118-8e8fc24abf80'',
            JObj [(''name'', JStr ''Ibuprofen''), (''dosage'', JStr ''200mg''),
                  (''frequency'', JStr ''1 times daily''), (''times'', JList [JStr ''09:00'']),
                  (''notes'', JStr []), (''created_date'', JStr ''2024-05-01T10:01:00''),
                  (''active'', JBool True)])]),
          (''logs'', JList []), (''mood_logs'', JList []),
          (''side_effects'', JList [JObj [(''id'', JStr ''6fa459ea-ee8a-4ca4-894e-db77e160355e''), (''med_id'', JStr ''1b4e28ba-2fa1-4d3b-a3f5-5f3c8a1e9d10''),
             (''timestamp'', JStr ''2024-05-01T10:02:00''), (''effect'', JStr ''Headache''),
             (''severity'', JInt 2), (''notes'', JStr [])]])])\<rparr>
       ''Ibuprofen'' ''400mg'' ''3 times daily'' [''07:00'', ''13:00'', ''19:00''] [] =
         Inr (''16fd2706-8baf-433b-82eb-8c7fada847da'', save_data (
       \<lparr>medications = JObj [(''9c5b94b1-35ad-49bb-b118-8e8fc24abf80'',
          JObj [(''name'', JStr ''Ibuprofen''), (''dosage'', JStr ''200mg''),
                (''frequency'', JStr ''1 times daily''), (''times'', JList [JStr ''09:00'']),
                (''notes'', JStr []), (''created_date'', JStr ''2024-05-01T10:01:00''),
                (''active'', JBool True)])],
       logs = JList [], mood_logs = JList [],
       side_effects = JList [JObj [(''id'', JStr ''6fa459ea-ee8a-4ca4-894e-db77e160355e''), (''med_id'', JStr ''1b4e28ba-2fa1-4d3b-a3f5-5f3c8a1e9d10''),
          (''timestamp'', JStr ''2024-05-01T10:02:00''), (''effect'', JStr ''Headache''),
          (''severity'', JInt 2), (''notes'', JStr [])]],
       data_file = Document (JObj
         [(''medications'', JObj [(''9c5b94b1-35ad-49bb-b118-8e8fc24abf80'',
            JObj [(''name'', JStr ''Ibuprofen''), (''dosage'', JStr ''200mg''),
                  (''frequency'', JStr ''1 times daily''), (''times'', JList [JStr ''09:00'']),
                  (''notes'', JStr []), (''created_date'', JStr ''2024-05-01T10:01:00''),
                  (''active'', JBool True)])]),
          (''logs'', JList []), (''mood_logs'', JList []),
          (''side_effects'', JList [JObj [(''id'', JStr ''6fa459ea-ee8a-4ca4-894e-db77e160355e''), (''med_id'', JStr ''1b4e28ba-2fa1-4d3b-a3f5-5f3c8a1e9d10''),
             (''timestamp'', JStr ''2024-05-01T10:02:00''), (''effect'', JStr ''Headache''),
             (''severity'', JInt 2), (''notes'', JStr [])]])])\<rparr>
      \<lparr>medications := JObj (ms @ [(''16fd2706-8baf-433b-82eb-8c7fada847da'',
                new_medication
                  \<lparr>uuid4 = ''16fd2706-8baf-433b-82eb-8c7fada847da'', now = 1714557900000000, now_isoformat = ''2024-05-01T10:05:00''\<rparr>
                  ''Ibuprofen'' ''400mg'' ''3 times daily'' [''07:00'', ''13:00'', ''19:00''] [])])\<rparr>)))"
proof -
  let ?gen = "(\<lambda>i. [''1b4e28ba-2fa1-4d3b-a3f5-5f3c8a1e9d10'', ''9c5b94b1-35ad-49bb-b118-8e8fc24abf80'', ''6fa459ea-ee8a-4ca4-894e-db77e160355e'', ''16fd2706-8baf-433b-82eb-8c7fada847da''] ! i)"
  let ?calls = "[(Add_medication ''Aspirin'' ''100mg'' ''2 times daily'' [''08:00'', ''20:00''] [],
         1714557600000000, ''2024-05-01T10:00:00''),
      (Add_medication ''Ibuprofen'' ''200mg'' ''1 times daily'' [''09:00''] [],
         1714557660000000, ''2024-05-01T10:01:00''),
      (Log_side_effect ''1b4e28ba-2fa1-4d3b-a3f5-5f3c8a1e9d10'' ''Headache'' 2 [],
         1714557720000000, ''2024-05-01T10:02:00''),
      (Restart, 1714557780000000, ''2024-05-01T10:03:00''),
      (Delete_medication ''1b4e28ba-2fa1-4d3b-a3f5-5f3c8a1e9d10'',
         1714557840000000, ''2024-05-01T10:04:00'')]"
  have h1: "run ?gen ?calls (0, new_tracker Missing) = Inr (3, 
       \<lparr>medications = JObj [(''9c5b94b1-35ad-49bb-b118-8e8fc24abf80'',
          JObj [(''name'', JStr ''Ibuprofen''), (''dosage'', JStr ''200mg''),
                (''frequency'', JStr ''1 times daily''), (''times'', JList [JStr ''09:00'']),
                (''notes'', JStr []), (''created_date'', JStr ''2024-05-01T10:01:00''),
                (''active'', JBool True)])],
       logs = JList [], mood_logs = JList [],
       side_effects = JList [JObj [(''id'', JStr ''6fa459ea-ee8a-4ca4-894e-db77e160355e''), (''med_id'', JStr ''1b4e28ba-2fa1-4d3b-a3f5-5f3c8a1e9d10''),
          (''timestamp'', JStr ''2024-05-01T10:02:00''), (''effect'', JStr ''Headache''),
          (''severity'', JInt 2), (''notes'', JStr [])]],
       data_file = Document (JObj
         [(''medications'', JObj [(''9c5b94b1-35ad-49bb-b118-8e8fc24abf80'',
            JObj [(''name'', JStr ''Ibuprofen''), (''dosage'', JStr ''200mg''),
                  (''frequency'', JStr ''1 times daily''), (''times'', JList [JStr ''09:00'']),
                  (''notes'', JStr []), (''created_date'', JStr ''2024-05-01T10:01:00''),
                  (''active'', JBool True)])]),
          (''logs'', JList []), (''mood_logs'', JList []),
          (''side_effects'', JList [JObj [(''id'', JStr ''6fa459ea-ee8a-4ca4-894e-db77e160355e''), (''med_id'', JStr ''1b4e28ba-2fa1-4d3b-a3f5-5f3c8a1e9d10''),
             (''timestamp'', JStr ''2024-05-01T10:02:00''), (''effect'', JStr ''Headache''),
             (''severity'', JInt 2), (''notes'', JStr [])]])])\<rparr>
      )"
    by (simp add: new_tracker_def load_data_def load_data_try_def initialize_empty_data_def
        add_medication_def new_medication_def log_side_effect_def side_effect_entry_def
        delete_medication_def save_data_def Let_def)
  have h2: "distinct (map ?gen [0..<Suc 3])"
    by (simp add: upt_rec)
  note h1 h2
  moreover note add_medication_fresh_id [OF h1 h2, of 1714557900000000 "''2024-05-01T10:05:00''"
      "''Ibuprofen''" "''400mg''" "''3 times daily''" "[''07:00'', ''13:00'', ''19:00'']" "[]"]
  ultimately show ?thesis by simp
qed

section \<open>Logging\<close>

text \<open>
  C2, as the code has it. When \<open>side_effects\<close> is a list, \<open>log_side_effect\<close> returns
  normally and the entry it appends holds, under \<open>severity\<close>, the very number that was
  passed: nothing is checked or clamped, so the entry's severity is in 1 to 5 exactly
  when the argument is.
\<close>

theorem log_side_effect_severity:
  assumes "side_effects t = JList ses"
  shows "\<exists>t' entry. log_side_effect e t med_id effect severity notes = Inr t'
           \<and> side_effects t' = JList (ses @ [entry])
           \<and> py_getitem entry ''severity'' = Inr (JInt severity)"
  using assms
  by (simp add: log_side_effect_def side_effect_entry_def save_data_def)

theorem log_side_effect_severity_witness:
  "\<exists>t' entry. log_side_effect
       \<lparr>uuid4 = ''1b4e28ba-2fa1-4d3b-a3f5-5f3c8a1e9d10'', now = 1714557600000000, now_isoformat = ''2024-05-01T10:00:00''\<rparr>
       \<lparr>medications = JObj [], logs = JList [], mood_logs = JList [], side_effects = JList [],
        data_file = Missing\<rparr> ''a'' ''Nausea'' 4 ''after lunch'' = Inr t'
     \<and> side_effects t' = JList ([] @ [entry])
     \<and> py_getitem entry ''severity'' = Inr (JInt 4)"
proof -
  have h: "side_effects \<lparr>medications = JObj [], logs = JList [], mood_logs = JList [],
        side_effects = JList [], data_file = Missing\<rparr> = JList []" by simp
  show ?thesis by (rule log_side_effect_severity [OF h])
qed

text \<open>C2, as stated, fails for a severity outside 1 to 5: with 7 the entry holds 7.\<close>

theorem log_side_effect_out_of_range:
  "log_side_effect \<lparr>uuid4 = ''1b4e28ba-2fa1-4d3b-a3f5-5f3c8a1e9d10'', now = 1714557600000000, now_isoformat = ''2024-05-01T10:00:00''\<rparr>
     \<lparr>medications = JObj [], logs = JList [], mood_logs = JList [], side_effects = JList [],
      data_file = Missing\<rparr> ''a'' ''Headache'' 7 []
   = Inr \<lparr>medications = JObj [], logs = JList [], mood_logs = JList [],
       side_effects = JList [JObj [(''id'', JStr ''1b4e28ba-2fa1-4d3b-a3f5-5f3c8a1e9d10''), (''med_id'', JStr ''a''),
         (''timestamp'', JStr ''2024-05-01T10:00:00''), (''effect'', JStr ''Headache''),
         (''severity'', JInt 7), (''notes'', JStr [])]],
       data_file = Document (JObj [(''medications'', JObj []), (''logs'', JList []),
         (''mood_logs'', JList []),
         (''side_effects'', JList [JObj [(''id'', JStr ''1b4e28ba-2fa1-4d3b-a3f5-5f3c8a1e9d10''), (''med_id'', JStr ''a''),
           (''timestamp'', JStr ''2024-05-01T10:00:00''), (''effect'', JStr ''Headache''),
           (''severity'', JInt 7), (''notes'', JStr [])]])])\<rparr>
   \<and> \<not> (1 \<le> (7::int) \<and> (7::int) \<le> 5)"
  by (simp add: log_side_effect_def side_effect_entry_def save_data_def)

text \<open>
  C10. When \<open>side_effects\<close> is a list, \<open>log_side_effect\<close> returns normally, the list has
  the one new entry after all the old ones, and \<open>medications\<close>, \<open>mood_logs\<close> and \<open>logs\<close>
  are as before. When \<open>mood_logs\<close> is a list, \<open>log_mood\<close> returns normally, the list has
  the one new entry after all the old ones, and \<open>medications\<close>, \<open>side_effects\<close> and
  \<open>logs\<close> are as before.
\<close>

theorem log_frame:
  "(side_effects t = JList ses \<longrightarrow>
      (case log_side_effect e t med_id effect severity notes of
         Inl err \<Rightarrow> False
       | Inr t' \<Rightarrow>
           side_effects t' = JList (ses @ [side_effect_entry e med_id effect severity notes])
           \<and> medications t' = medications t \<and> mood_logs t' = mood_logs t \<and> logs t' = logs t))
   \<and> (mood_logs t = JList mls \<longrightarrow>
      (case log_mood e t mood_score notes' of
         Inl err \<Rightarrow> False
       | Inr t' \<Rightarrow>
           mood_logs t' = JList (mls @ [mood_entry e mood_score notes'])
           \<and> medications t' = medications t \<and> side_effects t' = side_effects t
           \<and> logs t' = logs t))"
  by (simp add: log_side_effect_def log_mood_def save_data_def)

theorem log_frame_witness:
  "side_effects \<lparr>medications = JObj [], logs = JList [], mood_logs = JList [JInt 1],
                  side_effects = JList [JInt 2], data_file = Missing\<rparr> = JList [JInt 2]
   \<and> mood_logs \<lparr>medications = JObj [], logs = JList [], mood_logs = JList [JInt 1],
                  side_effects = JList [JInt 2], data_file = Missing\<rparr> = JList [JInt 1]
   \<and> (case log_side_effect
            \<lparr>uuid4 = ''1b4e28ba-2fa1-4d3b-a3f5-5f3c8a1e9d10'', now = 1714557600000000, now_isoformat = ''2024-05-01T10:00:00''\<rparr>
            \<lparr>medications = JObj [], logs = JList [], mood_logs = JList [JInt 1],
             side_effects = JList [JInt 2], data_file = Missing\<rparr> ''a'' ''Headache'' 2 [] of
         Inl err \<Rightarrow> False
       | Inr t' \<Rightarrow>
           side_effects t' = JList [JInt 2,
             JObj [(''id'', JStr ''1b4e28ba-2fa1-4d3b-a3f5-5f3c8a1e9d10''), (''med_id'', JStr ''a''),
                   (''timestamp'', JStr ''2024-05-01T10:00:00''), (''effect'', JStr ''Headache''),
                   (''severity'', JInt 2), (''notes'', JStr [])]]
           \<and> medications t' = JObj [] \<and> mood_logs t' = JList [JInt 1] \<and> logs t' = JList [])
   \<and> (case log_mood
            \<lparr>uuid4 = ''1b4e28ba-2fa1-4d3b-a3f5-5f3c8a1e9d10'', now = 1714557600000000, now_isoformat = ''2024-05-01T10:00:00''\<rparr>
            \<lparr>medications = JObj [], logs = JList [], mood_logs = JList [JInt 1],
             side_effects = JList [JInt 2], data_file = Missing\<rparr> 6 ''fine'' of
         Inl err \<Rightarrow> False
       | Inr t' \<Rightarrow>
           mood_logs t' = JList [JInt 1,
             JObj [(''id'', JStr ''1b4e28ba-2fa1-4d3b-a3f5-5f3c8a1e9d10''), (''timestamp'', JStr ''2024-05-01T10:00:00''),
                   (''mood_score'', JInt 6), (''notes'', JStr ''fine'')]]
           \<and> medications t' = JObj [] \<and> side_effects t' = JList [JInt 2] \<and> logs t' = JList [])"
  using log_frame
      [of "\<lparr>medications = JObj [], logs = JList [], mood_logs = JList [JInt 1],
            side_effects = JList [JInt 2], data_file = Missing\<rparr>"
          "[JInt 2]"
          "\<lparr>uuid4 = ''1b4e28ba-2fa1-4d3b-a3f5-5f3c8a1e9d10'', now = 1714557600000000, now_isoformat = ''2024-05-01T10:00:00''\<rparr>"
          "''a''" "''Headache''" 2 "[]" "[JInt 1]" 6 "''fine''"]
  by (simp add: side_effect_entry_def mood_entry_def log_side_effect_def log_mood_def save_data_def)

section \<open>Deleting a medication\<close>

text \<open>
  C4. When \<open>medications\<close> is a dict: \<open>delete_medication\<close> with an id that is not a key
  returns \<open>False\<close> and the tracker and the file are exactly as before; with an id that is
  a key it returns \<open>True\<close>, the dict keeps every other entry, in order, and loses only
  that key, the side effects, mood logs and logs are untouched, and the file is rewritten.
\<close>

theorem delete_medication_spec:
  assumes "medications t = JObj ms"
  shows "delete_medication t med_id =
           (if med_id \<in> fst ` set ms
            then Inr (True, save_data (t\<lparr>medications := JObj (filter (\<lambda>kv. fst kv \<noteq> med_id) ms)\<rparr>))
            else Inr (False, t))
         \<and> side_effects (save_data (t\<lparr>medications := JObj (filter (\<lambda>kv. fst kv \<noteq> med_id) ms)\<rparr>))
             = side_effects t
         \<and> mood_logs (save_data (t\<lparr>medications := JObj (filter (\<lambda>kv. fst kv \<noteq> med_id) ms)\<rparr>))
             = mood_logs t
         \<and> logs (save_data (t\<lparr>medications := JObj (filter (\<lambda>kv. fst kv \<noteq> med_id) ms)\<rparr>))
             = logs t"
  using assms by (simp add: delete_medication_def delete_filter save_data_def)

theorem delete_medication_spec_witness:
  "delete_medication
     \<lparr>medications = JObj [(''a'', JObj [(''name'', JStr ''Aspirin'')]),
                          (''b'', JObj [(''name'', JStr ''Ibuprofen'')])],
      logs = JList [], mood_logs = JList [],
      side_effects = JList [JObj [(''med_id'', JStr ''a'')]], data_file = Missing\<rparr> ''a''
   = Inr (True,
     \<lparr>medications = JObj [(''b'', JObj [(''name'', JStr ''Ibuprofen'')])],
      logs = JList [], mood_logs = JList [],
      side_effects = JList [JObj [(''med_id'', JStr ''a'')]],
      data_file = Document (JObj
        [(''medications'', JObj [(''b'', JObj [(''name'', JStr ''Ibuprofen'')])]),
         (''logs'', JList []), (''mood_logs'', JList []),
         (''side_effects'', JList [JObj [(''med_id'', JStr ''a'')]])])\<rparr>)
   \<and> delete_medication
     \<lparr>medications = JObj [(''a'', JObj [(''name'', JStr ''Aspirin'')])],
      logs = JList [], mood_logs = JList [],
      side_effects = JList [], data_file = Missing\<rparr> ''zz''
   = Inr (False,
     \<lparr>medications = JObj [(''a'', JObj [(''name'', JStr ''Aspirin'')])],
      logs = JList [], mood_logs = JList [],
      side_effects = JList [], data_file = Missing\<rparr>)"
  using delete_medication_spec
      [of "\<lparr>medications = JObj [(''a'', JObj [(''name'', JStr ''Aspirin'')]),
                                (''b'', JObj [(''name'', JStr ''Ibuprofen'')])],
            logs = JList [], mood_logs = JList [],
            side_effects = JList [JObj [(''med_id'', JStr ''a'')]], data_file = Missing\<rparr>"
          "[(''a'', JObj [(''name'', JStr ''Aspirin'')]),
            (''b'', JObj [(''name'', JStr ''Ibuprofen'')])]" "''a''"]
    delete_medication_spec
      [of "\<lparr>medications = JObj [(''a'', JObj [(''name'', JStr ''Aspirin'')])],
            logs = JList [], mood_logs = JList [],
            side_effects = JList [], data_file = Missing\<rparr>"
          "[(''a'', JObj [(''name'', JStr ''Aspirin'')])]" "''zz''"]
  by (simp add: save_data_def)

section \<open>Archiving and reactivating\<close>



text \<open>
  C9. When \<open>medications\<close> is a dict and the id is a key whose medication is a dict,
  \<open>reactivate_medication\<close> returns \<open>True\<close> and the medication has \<open>active\<close> true and
  neither \<open>archived_date\<close> nor \<open>archive_reason\<close> afterwards, whether or not it had them
  before: no exception is raised.
\<close>

theorem reactivate_never_fails:
  assumes "medications t = JObj ms" and "map_of ms med_id = Some (JObj fs)"
  shows "\<exists>t' fs'. reactivate_medication t med_id = Inr (True, t')
           \<and> py_getitem (medications t') med_id = Inr (JObj fs')
           \<and> map_of fs' ''active'' = Some (JBool True)
           \<and> map_of fs' ''archived_date'' = None
           \<and> map_of fs' ''archive_reason'' = None"
  using reactivate_medication_dict [OF assms]
  by (simp add: save_data_def map_of_update_same AList.delete_conv' AList.update_conv')

theorem reactivate_never_fails_witness:
  "\<exists>t' fs'. reactivate_medication
       \<lparr>medications = JObj [(''a'', JObj [(''name'', JStr ''Aspirin''), (''active'', JBool True)])],
        logs = JList [], mood_logs = JList [], side_effects = JList [], data_file = Missing\<rparr> ''a''
       = Inr (True, t')
     \<and> py_getitem (medications t') ''a'' = Inr (JObj fs')
     \<and> map_of fs' ''active'' = Some (JBool True)
     \<and> map_of fs' ''archived_date'' = None
     \<and> map_of fs' ''archive_reason'' = None"
proof -
  have h1: "medications
       \<lparr>medications = JObj [(''a'', JObj [(''name'', JStr ''Aspirin''), (''active'', JBool True)])],
        logs = JList [], mood_logs = JList [], side_effects = JList [], data_file = Missing\<rparr>
     = JObj [(''a'', JObj [(''name'', JStr ''Aspirin''), (''active'', JBool True)])]"
    by simp
  have h2: "map_of [(''a'', JObj [(''name'', JStr ''Aspirin''), (''active'', JBool True)])] ''a''
     = Some (JObj [(''name'', JStr ''Aspirin''), (''active'', JBool True)])"
    by simp
  show ?thesis by (rule reactivate_never_fails [OF h1 h2])
qed

section \<open>Cleaning old side effects\<close>

text \<open>
  C3. Let \<open>side_effects\<close> be a list whose entries each have a \<open>timestamp\<close> that is read
  as an instant. Then the handler returns normally; the new list is the old one without
  the entries whose instant is strictly before the current time less 365 days, every
  other entry kept and in the old order, wherever the removed ones stood; the number
  reported is the number of entries removed; and the file is rewritten.
\<close>

theorem clean_old_data_spec:
  assumes ses: "side_effects t = JList ses"
    and ts: "\<forall>se\<in>set ses. \<exists>s. py_getitem se ''timestamp'' = Inr (JStr s)
                \<and> fromisoformat s = Inr (stamp se)"
  shows "clean_old_data fromisoformat e t =
           Inr (int (length (filter (\<lambda>se. stamp se < now e - 365 * 86400000000) ses)),
                save_data (t\<lparr>side_effects :=
                  JList (filter (\<lambda>se. \<not> stamp se < now e - 365 * 86400000000) ses)\<rparr>))"
proof -
  let ?cut = "now e - timedelta_days 365"
  have "\<forall>se\<in>set ses. not_before fromisoformat ?cut se = Inr (\<not> stamp se < ?cut)"
  proof
    fix se assume "se \<in> set ses"
    with ts obtain s where "py_getitem se ''timestamp'' = Inr (JStr s)"
      and "fromisoformat s = Inr (stamp se)" by blast
    then show "not_before fromisoformat ?cut se = Inr (\<not> stamp se < ?cut)"
      by (simp add: not_before_def not_less)
  qed
  then have kept: "filterE (not_before fromisoformat ?cut) ses
                     = Inr (filter (\<lambda>se. \<not> stamp se < ?cut) ses)"
    by (rule filterE_as_filter)
  have count: "int (length ses) - int (length (filter (\<lambda>se. \<not> stamp se < ?cut) ses))
                 = int (length (filter (\<lambda>se. stamp se < ?cut) ses))"
    using sum_length_filter_compl [of "\<lambda>se. stamp se < ?cut" ses] by simp
  show ?thesis
    using kept count
    by (simp add: clean_old_data_def ses save_data_def Let_def) (simp add: timedelta_days_def)
qed

theorem clean_old_data_spec_witness:
  "clean_old_data
     (\<lambda>s. case map_of [(''2024-05-01T10:00:00'', 1714557600000000),
                        (''2020-01-01T00:00:00'', 1577836800000000),
                        (''2023-06-02T12:00:00'', 1685707200000000),
                        (''2023-06-02T11:59:59.999999'', 1685707199999999)] s of
            Some n \<Rightarrow> Inr n | None \<Rightarrow> Inl ValueError)
     \<lparr>uuid4 = ''1b4e28ba-2fa1-4d3b-a3f5-5f3c8a1e9d10'', now = 1717243200000000, now_isoformat = ''2024-06-01T12:00:00''\<rparr>
     \<lparr>medications = JObj [], logs = JList [], mood_logs = JList [],
      side_effects = JList [JObj [(''timestamp'', JStr ''2024-05-01T10:00:00'')],
                            JObj [(''timestamp'', JStr ''2020-01-01T00:00:00'')],
                            JObj [(''timestamp'', JStr ''2023-06-02T12:00:00'')],
                            JObj [(''timestamp'', JStr ''2023-06-02T11:59:59.999999'')]],
      data_file = Missing\<rparr>
   = Inr (2,
     \<lparr>medications = JObj [], logs = JList [], mood_logs = JList [],
      side_effects = JList [JObj [(''timestamp'', JStr ''2024-05-01T10:00:00'')],
                            JObj [(''timestamp'', JStr ''2023-06-02T12:00:00'')]],
      data_file = Document (JObj [(''medications'', JObj []), (''logs'', JList []),
        (''mood_logs'', JList []),
        (''side_effects'', JList [JObj [(''timestamp'', JStr ''2024-05-01T10:00:00'')],
                                  JObj [(''timestamp'', JStr ''2023-06-02T12:00:00'')]])])\<rparr>)"
proof -
  let ?F = "\<lambda>s. case map_of [(''2024-05-01T10:00:00'', 1714557600000000::int),
                        (''2020-01-01T00:00:00'', 1577836800000000),
                        (''2023-06-02T12:00:00'', 1685707200000000),
                        (''2023-06-02T11:59:59.999999'', 1685707199999999)] s of
            Some n \<Rightarrow> Inr n | None \<Rightarrow> Inl ValueError"
  let ?stamp = "\<lambda>se. case py_getitem se ''timestamp'' of
                  Inr (JStr s) \<Rightarrow> (case ?F s of Inr n \<Rightarrow> n | Inl err \<Rightarrow> 0) | _ \<Rightarrow> 0"
  let ?ses = "[JObj [(''timestamp'', JStr ''2024-05-01T10:00:00'')],
               JObj [(''timestamp'', JStr ''2020-01-01T00:00:00'')],
               JObj [(''timestamp'', JStr ''2023-06-02T12:00:00'')],
               JObj [(''timestamp'', JStr ''2023-06-02T11:59:59.999999'')]]"
  let ?t = "\<lparr>medications = JObj [], logs = JList [], mood_logs = JList [],
      side_effects = JList ?ses, data_file = Missing\<rparr>"
  have h1: "side_effects ?t = JList ?ses" by simp
  have h2: "\<forall>se\<in>set ?ses. \<exists>s. py_getitem se ''timestamp'' = Inr (JStr s)
                \<and> ?F s = Inr (?stamp se)" by simp
  from clean_old_data_spec [OF h1 h2,
      of "\<lparr>uuid4 = ''1b4e28ba-2fa1-4d3b-a3f5-5f3c8a1e9d10'', now = 1717243200000000, now_isoformat = ''2024-06-01T12:00:00''\<rparr>"]
  show ?thesis by (simp add: save_data_def)
qed

section \<open>The per-medication analysis\<close>

lemma analysis_step_inv:
  assumes name: "effect_med_name t e = Inr (JStr (nm e))"
    and sev: "py_getitem e ''severity'' = Inr (JInt (sv e))"
    and keys: "map fst acc = map JStr ks"
    and dist: "distinct ks"
    and dom: "set ks = nm ` set xs"
    and find: "\<forall>n. dfind (JStr n) acc =
                 (if filter (\<lambda>x. nm x = n) xs = [] then None
                  else Some \<lparr>total_effects = int (length (filter (\<lambda>x. nm x = n) xs)),
                             avg_severity = 0,
                             severities = map (\<lambda>x. JInt (sv x)) (filter (\<lambda>x. nm x = n) xs)\<rparr>)"
  shows "\<exists>acc' ks'. analysis_step t acc e = Inr acc'
           \<and> map fst acc' = map JStr ks' \<and> distinct ks' \<and> set ks' = nm ` set (xs @ [e])
           \<and> (\<forall>n. dfind (JStr n) acc' =
                 (if filter (\<lambda>x. nm x = n) (xs @ [e]) = [] then None
                  else Some \<lparr>total_effects = int (length (filter (\<lambda>x. nm x = n) (xs @ [e]))),
                             avg_severity = 0,
                             severities =
                               map (\<lambda>x. JInt (sv x)) (filter (\<lambda>x. nm x = n) (xs @ [e]))\<rparr>))"
proof -
  let ?m = "nm e"
  let ?init = "\<lparr>total_effects = 0, avg_severity = 0, severities = []\<rparr>"
  let ?a1 = "if dfind (JStr ?m) acc = None then acc @ [(JStr ?m, ?init)] else acc"
  let ?f1 = "\<lambda>d::analysis. d\<lparr>total_effects := total_effects d + 1\<rparr>"
  let ?f2 = "\<lambda>d::analysis. d\<lparr>severities := severities d @ [JInt (sv e)]\<rparr>"
  let ?acc' = "dmodify (JStr ?m) ?f2 (dmodify (JStr ?m) ?f1 ?a1)"
  let ?ks' = "if ?m \<in> set ks then ks else ks @ [?m]"
  have step: "analysis_step t acc e = Inr ?acc'"
    by (simp add: analysis_step_def name sev Let_def)
  have "dfind (JStr ?m) acc = None \<longleftrightarrow> filter (\<lambda>x. nm x = ?m) xs = []"
    using find by simp
  also have "\<dots> \<longleftrightarrow> ?m \<notin> nm ` set xs"
    unfolding filter_empty_conv by (metis image_iff)
  finally have new: "dfind (JStr ?m) acc = None \<longleftrightarrow> ?m \<notin> set ks"
    using dom by simp
  have k: "map fst ?acc' = map JStr ?ks'"
    using keys new by (simp add: keys_dmodify)
  have d: "distinct ?ks'"
    using dist by simp
  have s: "set ?ks' = nm ` set (xs @ [e])"
    using dom by auto
  have f: "dfind (JStr n) ?acc' =
             (if filter (\<lambda>x. nm x = n) (xs @ [e]) = [] then None
              else Some \<lparr>total_effects = int (length (filter (\<lambda>x. nm x = n) (xs @ [e]))),
                         avg_severity = 0,
                         severities =
                           map (\<lambda>x. JInt (sv x)) (filter (\<lambda>x. nm x = n) (xs @ [e]))\<rparr>)"
    for n
  proof (cases "n = ?m")
    case False
    then have "dfind (JStr n) ?acc' = dfind (JStr n) acc"
      by (auto simp: dfind_dmodify dfind_append split: option.splits)
    with False find show ?thesis by simp
  next
    case True
    show ?thesis
    proof (cases "filter (\<lambda>x. nm x = ?m) xs = []")
      case True
      with find have "dfind (JStr ?m) acc = None" by simp
      then have "dfind (JStr ?m) ?acc' = Some (?f2 (?f1 ?init))"
        by (simp add: dfind_dmodify dfind_append)
      with True \<open>n = ?m\<close> show ?thesis by simp
    next
      case False
      with find have "dfind (JStr ?m) acc =
          Some \<lparr>total_effects = int (length (filter (\<lambda>x. nm x = ?m) xs)), avg_severity = 0,
                severities = map (\<lambda>x. JInt (sv x)) (filter (\<lambda>x. nm x = ?m) xs)\<rparr>"
        by simp
      then have "dfind (JStr ?m) ?acc' =
          Some (?f2 (?f1 \<lparr>total_effects = int (length (filter (\<lambda>x. nm x = ?m) xs)),
                avg_severity = 0,
                severities = map (\<lambda>x. JInt (sv x)) (filter (\<lambda>x. nm x = ?m) xs)\<rparr>))"
        by (simp add: dfind_dmodify)
      with \<open>n = ?m\<close> show ?thesis by simp
    qed
  qed
  from step k d s f show ?thesis by blast
qed

lemma analysis_loop:
  assumes "\<forall>x\<in>set es. effect_med_name t x = Inr (JStr (nm x))
              \<and> py_getitem x ''severity'' = Inr (JInt (sv x))"
  shows "\<exists>acc ks. foldE (analysis_step t) es [] = Inr acc
           \<and> map fst acc = map JStr ks \<and> distinct ks \<and> set ks = nm ` set es
           \<and> (\<forall>n. dfind (JStr n) acc =
                 (if filter (\<lambda>x. nm x = n) es = [] then None
                  else Some \<lparr>total_effects = int (length (filter (\<lambda>x. nm x = n) es)),
                             avg_severity = 0,
                             severities = map (\<lambda>x. JInt (sv x)) (filter (\<lambda>x. nm x = n) es)\<rparr>))"
  using assms
proof (induction es rule: rev_induct)
  case Nil
  show ?case by simp
next
  case (snoc e es)
  then obtain acc ks where loop: "foldE (analysis_step t) es [] = Inr acc"
    and inv: "map fst acc = map JStr ks" "distinct ks" "set ks = nm ` set es"
      "\<forall>n. dfind (JStr n) acc =
                 (if filter (\<lambda>x. nm x = n) es = [] then None
                  else Some \<lparr>total_effects = int (length (filter (\<lambda>x. nm x = n) es)),
                             avg_severity = 0,
                             severities = map (\<lambda>x. JInt (sv x)) (filter (\<lambda>x. nm x = n) es)\<rparr>)"
    by auto
  from snoc.prems have e: "effect_med_name t e = Inr (JStr (nm e))"
    "py_getitem e ''severity'' = Inr (JInt (sv e))" by simp_all
  from analysis_step_inv [OF e inv] loop show ?case
    by (simp add: foldE_snoc)
qed


subsection \<open>Evaluating the division\<close>

lemmas truediv_eval =
  py_truediv_def float_of_ratio_def floor_log2_def round_half_even_def bit_length.simps Let_def

lemma py_truediv_9_3: "py_truediv 9 3 = Inr 3"
  by (simp add: truediv_eval)

lemma med_analysis_groups:
  assumes effects: "side_effects t = JList es"
    and wf: "\<forall>x\<in>set es. effect_med_name t x = Inr (JStr (nm x))
              \<and> py_getitem x ''severity'' = Inr (JInt (sv x))"
    and fits: "\<forall>x\<in>set es.
        py_truediv (sum_list (map sv (filter (\<lambda>y. nm y = nm x) es)))
          (int (length (filter (\<lambda>y. nm y = nm x) es))) = Inr (av (nm x))"
  shows "\<exists>res ks. med_analysis t = Inr res
           \<and> map fst res = map JStr ks \<and> distinct ks \<and> set ks = nm ` set es
           \<and> (\<forall>n. dfind (JStr n) res =
                 (if filter (\<lambda>x. nm x = n) es = [] then None
                  else Some \<lparr>total_effects = int (length (filter (\<lambda>x. nm x = n) es)),
                             avg_severity = av n,
                             severities = map (\<lambda>x. JInt (sv x)) (filter (\<lambda>x. nm x = n) es)\<rparr>))"
proof -
  let ?G = "\<lambda>n. filter (\<lambda>x. nm x = n) es"
  let ?S = "\<lambda>n. \<lparr>total_effects = int (length (?G n)), avg_severity = (0::rat),
                  severities = map (\<lambda>x. JInt (sv x)) (?G n)\<rparr>"
  define int_of where "int_of = (\<lambda>v. case v of JInt z \<Rightarrow> z | _ \<Rightarrow> 0)"
  define g where "g = (\<lambda>d::analysis. d\<lparr>avg_severity :=
      (case py_truediv (sum_list (map int_of (severities d))) (int (length (severities d))) of
         Inr a \<Rightarrow> a | Inl err \<Rightarrow> 0)\<rparr>)"
  from analysis_loop [OF wf] obtain acc ks
    where loop: "foldE (analysis_step t) es [] = Inr acc"
      and keys: "map fst acc = map JStr ks" and dist: "distinct ks"
      and dom: "set ks = nm ` set es"
      and find: "\<forall>n. dfind (JStr n) acc = (if ?G n = [] then None else Some (?S n))"
    by blast
  have div: "py_truediv (sum_list (map sv (?G n))) (int (length (?G n))) = Inr (av n)"
    if "?G n \<noteq> []" for n
  proof -
    from that obtain x where "x \<in> set es" "nm x = n"
      by (auto simp: filter_empty_conv)
    with fits show ?thesis by blast
  qed
  have gS: "g (?S n) = (?S n)\<lparr>avg_severity := av n\<rparr>" if "?G n \<noteq> []" for n
    using div [OF that] by (simp add: g_def int_of_def comp_def)
  have avg: "set_avg_severity (snd p) = Inr (g (snd p))" if p: "p \<in> set acc" for p
  proof -
    from p have "fst p \<in> set (map fst acc)" by simp
    with keys obtain n where n: "fst p = JStr n" by auto
    from dist keys have "distinct (map fst acc)"
      by (simp add: distinct_map inj_on_def)
    with p n have "map_of acc (JStr n) = Some (snd p)"
      by (metis map_of_eq_Some_iff prod.collapse)
    with keys have "dfind (JStr n) acc = Some (snd p)"
      by (simp add: dfind_str_keys)
    with find have ne: "?G n \<noteq> []" and d: "snd p = ?S n"
      by (auto split: if_splits)
    have "map (\<lambda>x. JInt (sv x)) (?G n) = map JInt (map sv (?G n))"
      by simp
    then have "py_sum (severities (?S n)) 0 = Inr (sum_list (map sv (?G n)))"
      by (simp add: py_sum_ints del: map_map)
    with div [OF ne] have "set_avg_severity (?S n) = Inr ((?S n)\<lparr>avg_severity := av n\<rparr>)"
      by (simp add: set_avg_severity_def)
    with d gS [OF ne] show ?thesis by simp
  qed
  then have "averages acc = Inr (map (\<lambda>p. (fst p, g (snd p))) acc)"
    by (intro averages_map) simp
  with loop effects have res: "med_analysis t = Inr (map (\<lambda>p. (fst p, g (snd p))) acc)"
    by (simp add: med_analysis_def)
  have rkeys: "map fst (map (\<lambda>p. (fst p, g (snd p))) acc) = map JStr ks"
    using keys by (simp add: comp_def)
  have rfind: "dfind (JStr n) (map (\<lambda>p. (fst p, g (snd p))) acc) =
      (if ?G n = [] then None
       else Some \<lparr>total_effects = int (length (?G n)), avg_severity = av n,
                  severities = map (\<lambda>x. JInt (sv x)) (?G n)\<rparr>)" for n
  proof (cases "?G n = []")
    case True
    with find show ?thesis by (simp add: dfind_map_values)
  next
    case False
    with find gS [OF False] show ?thesis by (simp add: dfind_map_values)
  qed
  from res rkeys dist dom rfind show ?thesis by blast
qed


lemma py_truediv_cases:
  assumes "b \<noteq> 0"
  shows "py_truediv a b = Inl OverflowError \<or> (\<exists>r. py_truediv a b = Inr r)"
  using assms by (simp add: py_truediv_def split: option.splits)

lemma effect_med_name_dict:
  assumes "medications t = JObj ms"
    and "py_getitem x ''med_id'' = Inr (JStr m)"
  shows "effect_med_name t x =
           (case map_of ms m of
              None \<Rightarrow> Inr (JStr ''Unknown (Deleted)'')
            | Some med \<Rightarrow> if py_truth med then py_getitem med ''name''
                          else Inr (JStr ''Unknown (Deleted)''))"
  using assms by (simp add: effect_med_name_def split: option.splits)

lemma py_getitem_truth:
  assumes "py_getitem med k = Inr v"
  shows "py_truth med"
  using assms by (cases med) (auto split: option.splits)


lemma py_truediv_4_3: "py_truediv 4 3 = Inr (6004799503160661 / 4503599627370496)"
  by (simp add: truediv_eval)

lemma py_truediv_6_2: "py_truediv 6 2 = Inr 3"
  by (simp add: truediv_eval)


text \<open>
  C1, as the code has it. Let \<open>medications\<close> be a dict and \<open>side_effects\<close> a list whose
  entries each have a string \<open>med_id\<close> and an integer \<open>severity\<close>; let every medication
  that an entry refers to have a string \<open>name\<close>, let these names differ from one
  medication to the other and from "Unknown (Deleted)", and let no average be beyond
  the range of a float. Then the analysis returns normally and has one group for each
  name \<open>nm\<close> that occurs. For a medication that is there, the group under its name
  reports the number of the entries with its id, their severities in order, and as
  average the float that Python's division of their sum by their number gives. The
  entries whose medication is not there are not grouped by id: they are all reported in
  the one group "Unknown (Deleted)", with their number, their severities and the
  average of all of them. A medication whose entries have the severities 1, 3, 5 is
  reported with 3 effects and the average 3.0.
\<close>

theorem med_analysis_per_medication:
  assumes meds: "medications t = JObj ms"
    and effects: "side_effects t = JList es"
    and shape: "\<forall>x\<in>set es. py_getitem x ''med_id'' = Inr (JStr (mid x))
                  \<and> py_getitem x ''severity'' = Inr (JInt (sv x))"
    and names: "\<forall>x\<in>set es.
        (case map_of ms (mid x) of
           None \<Rightarrow> nm x = ''Unknown (Deleted)''
         | Some med \<Rightarrow> py_getitem med ''name'' = Inr (JStr (nm x))
                       \<and> nm x \<noteq> ''Unknown (Deleted)'')"
    and apart: "\<forall>x\<in>set es. \<forall>y\<in>set es.
        nm x = nm y \<and> map_of ms (mid x) \<noteq> None \<longrightarrow> mid x = mid y"
    and fits: "\<forall>x\<in>set es.
        py_truediv (sum_list (map sv (filter (\<lambda>y. nm y = nm x) es)))
          (int (length (filter (\<lambda>y. nm y = nm x) es))) \<noteq> Inl OverflowError"
  shows "\<exists>res ks. med_analysis t = Inr res
           \<and> map fst res = map JStr ks \<and> distinct ks \<and> set ks = nm ` set es
           \<and> (\<forall>x\<in>set es. map_of ms (mid x) \<noteq> None \<longrightarrow>
                 (\<exists>d. dfind (JStr (nm x)) res = Some d
                    \<and> total_effects d = int (length (filter (\<lambda>y. mid y = mid x) es))
                    \<and> severities d = map (\<lambda>y. JInt (sv y)) (filter (\<lambda>y. mid y = mid x) es)
                    \<and> py_truediv (sum_list (map sv (filter (\<lambda>y. mid y = mid x) es)))
                         (int (length (filter (\<lambda>y. mid y = mid x) es))) = Inr (avg_severity d)))
           \<and> (\<forall>x\<in>set es. map_of ms (mid x) = None \<longrightarrow>
                 (\<exists>d. dfind (JStr ''Unknown (Deleted)'') res = Some d
                    \<and> total_effects d
                        = int (length (filter (\<lambda>y. map_of ms (mid y) = None) es))
                    \<and> severities d
                        = map (\<lambda>y. JInt (sv y)) (filter (\<lambda>y. map_of ms (mid y) = None) es)
                    \<and> py_truediv
                         (sum_list (map sv (filter (\<lambda>y. map_of ms (mid y) = None) es)))
                         (int (length (filter (\<lambda>y. map_of ms (mid y) = None) es)))
                        = Inr (avg_severity d)))
           \<and> (\<forall>x\<in>set es. map_of ms (mid x) \<noteq> None
                   \<and> map sv (filter (\<lambda>y. mid y = mid x) es) = [1, 3, 5] \<longrightarrow>
                 dfind (JStr (nm x)) res =
                   Some \<lparr>total_effects = 3, avg_severity = 3,
                         severities = [JInt 1, JInt 3, JInt 5]\<rparr>)"
proof -
  let ?G = "\<lambda>n. filter (\<lambda>y. nm y = n) es"
  let ?I = "\<lambda>m. filter (\<lambda>y. mid y = m) es"
  let ?O = "filter (\<lambda>y. map_of ms (mid y) = None) es"
  define av where "av = (\<lambda>n. case py_truediv (sum_list (map sv (?G n))) (int (length (?G n)))
                              of Inr a \<Rightarrow> a | Inl err \<Rightarrow> (0::rat))"
  have named: "(case map_of ms (mid x) of
           None \<Rightarrow> nm x = ''Unknown (Deleted)''
         | Some med \<Rightarrow> py_getitem med ''name'' = Inr (JStr (nm x))
                       \<and> nm x \<noteq> ''Unknown (Deleted)'')" if "x \<in> set es" for x
    using names that by blast
  have wf: "\<forall>x\<in>set es. effect_med_name t x = Inr (JStr (nm x))
              \<and> py_getitem x ''severity'' = Inr (JInt (sv x))"
  proof
    fix x assume x: "x \<in> set es"
    with shape have id: "py_getitem x ''med_id'' = Inr (JStr (mid x))"
      and s: "py_getitem x ''severity'' = Inr (JInt (sv x))" by auto
    have "effect_med_name t x = Inr (JStr (nm x))"
    proof (cases "map_of ms (mid x)")
      case None
      with named [OF x] have "nm x = ''Unknown (Deleted)''" by simp
      with None show ?thesis by (simp add: effect_med_name_dict [OF meds id])
    next
      case (Some med)
      with named [OF x] have n: "py_getitem med ''name'' = Inr (JStr (nm x))" by simp
      then have "py_truth med" by (rule py_getitem_truth)
      with Some n show ?thesis by (simp add: effect_med_name_dict [OF meds id])
    qed
    with s show "effect_med_name t x = Inr (JStr (nm x))
              \<and> py_getitem x ''severity'' = Inr (JInt (sv x))" by simp
  qed
  have fits': "\<forall>x\<in>set es.
        py_truediv (sum_list (map sv (?G (nm x)))) (int (length (?G (nm x)))) = Inr (av (nm x))"
  proof
    fix x assume x: "x \<in> set es"
    then have "?G (nm x) \<noteq> []" by (auto simp: filter_empty_conv)
    then have "int (length (?G (nm x))) \<noteq> 0" by simp
    from py_truediv_cases [OF this] fits x
    obtain r where "py_truediv (sum_list (map sv (?G (nm x)))) (int (length (?G (nm x)))) = Inr r"
      by blast
    then show "py_truediv (sum_list (map sv (?G (nm x)))) (int (length (?G (nm x))))
                 = Inr (av (nm x))"
      by (simp add: av_def)
  qed
  from med_analysis_groups [OF effects wf fits'] obtain res ks
    where res: "med_analysis t = Inr res" and keys: "map fst res = map JStr ks"
      and dist: "distinct ks" and dom: "set ks = nm ` set es"
      and find: "\<forall>n. dfind (JStr n) res =
                 (if ?G n = [] then None
                  else Some \<lparr>total_effects = int (length (?G n)), avg_severity = av n,
                             severities = map (\<lambda>x. JInt (sv x)) (?G n)\<rparr>)"
    by blast
  have entry: "dfind (JStr (nm x)) res =
                 Some \<lparr>total_effects = int (length (?G (nm x))), avg_severity = av (nm x),
                       severities = map (\<lambda>x. JInt (sv x)) (?G (nm x))\<rparr>"
    if "x \<in> set es" for x
  proof -
    from that have "?G (nm x) \<noteq> []" by (auto simp: filter_empty_conv)
    with find show ?thesis by simp
  qed
  have same_name: "nm y = nm x" if "x \<in> set es" "y \<in> set es" "mid y = mid x" for x y
  proof (cases "map_of ms (mid x)")
    case None
    with named [OF that(1)] have "nm x = ''Unknown (Deleted)''" by simp
    moreover from None that(3) named [OF that(2)] have "nm y = ''Unknown (Deleted)''" by simp
    ultimately show ?thesis by simp
  next
    case (Some med)
    with named [OF that(1)] have "py_getitem med ''name'' = Inr (JStr (nm x))" by simp
    moreover from Some that(3) named [OF that(2)]
    have "py_getitem med ''name'' = Inr (JStr (nm y))" by simp
    ultimately show ?thesis by simp
  qed
  have by_id: "?G (nm x) = ?I (mid x)" if x: "x \<in> set es" "map_of ms (mid x) \<noteq> None" for x
  proof (rule filter_cong [OF refl])
    fix y assume y: "y \<in> set es"
    show "(nm y = nm x) = (mid y = mid x)"
    proof
      assume "nm y = nm x"
      then have "nm x = nm y \<and> map_of ms (mid x) \<noteq> None" using x(2) by simp
      with apart x(1) y have "mid x = mid y" by blast
      then show "mid y = mid x" by simp
    next
      assume "mid y = mid x"
      with x(1) y show "nm y = nm x" by (rule same_name)
    qed
  qed
  have orphan_name: "nm x = ''Unknown (Deleted)'' \<longleftrightarrow> map_of ms (mid x) = None"
    if "x \<in> set es" for x
    using named [OF that] by (cases "map_of ms (mid x)") simp_all
  have by_orphan: "?G ''Unknown (Deleted)'' = ?O"
    by (rule filter_cong [OF refl]) (rule orphan_name)
  have div: "py_truediv (sum_list (map sv (?G (nm x)))) (int (length (?G (nm x))))
               = Inr (av (nm x))" if "x \<in> set es" for x
    using fits' that by blast
  have part1: "\<forall>x\<in>set es. map_of ms (mid x) \<noteq> None \<longrightarrow>
                 (\<exists>d. dfind (JStr (nm x)) res = Some d
                    \<and> total_effects d = int (length (?I (mid x)))
                    \<and> severities d = map (\<lambda>y. JInt (sv y)) (?I (mid x))
                    \<and> py_truediv (sum_list (map sv (?I (mid x))))
                         (int (length (?I (mid x)))) = Inr (avg_severity d))"
  proof (intro ballI impI)
    fix x assume x: "x \<in> set es" "map_of ms (mid x) \<noteq> None"
    from entry [OF x(1)] div [OF x(1)]
    show "\<exists>d. dfind (JStr (nm x)) res = Some d
                    \<and> total_effects d = int (length (?I (mid x)))
                    \<and> severities d = map (\<lambda>y. JInt (sv y)) (?I (mid x))
                    \<and> py_truediv (sum_list (map sv (?I (mid x))))
                         (int (length (?I (mid x)))) = Inr (avg_severity d)"
      unfolding by_id [OF x] by simp
  qed
  have part2: "\<forall>x\<in>set es. map_of ms (mid x) = None \<longrightarrow>
                 (\<exists>d. dfind (JStr ''Unknown (Deleted)'') res = Some d
                    \<and> total_effects d = int (length ?O)
                    \<and> severities d = map (\<lambda>y. JInt (sv y)) ?O
                    \<and> py_truediv (sum_list (map sv ?O)) (int (length ?O))
                        = Inr (avg_severity d))"
  proof (intro ballI impI)
    fix x assume x: "x \<in> set es" "map_of ms (mid x) = None"
    then have n: "nm x = ''Unknown (Deleted)''" by (simp add: orphan_name)
    from entry [OF x(1)] div [OF x(1)]
    show "\<exists>d. dfind (JStr ''Unknown (Deleted)'') res = Some d
                    \<and> total_effects d = int (length ?O)
                    \<and> severities d = map (\<lambda>y. JInt (sv y)) ?O
                    \<and> py_truediv (sum_list (map sv ?O)) (int (length ?O))
                        = Inr (avg_severity d)"
      unfolding n by_orphan by simp
  qed
  have part3: "\<forall>x\<in>set es. map_of ms (mid x) \<noteq> None
                   \<and> map sv (?I (mid x)) = [1, 3, 5] \<longrightarrow>
                 dfind (JStr (nm x)) res =
                   Some \<lparr>total_effects = 3, avg_severity = 3,
                         severities = [JInt 1, JInt 3, JInt 5]\<rparr>"
  proof (intro ballI impI)
    fix x assume x: "x \<in> set es"
      and h: "map_of ms (mid x) \<noteq> None \<and> map sv (?I (mid x)) = [1, 3, 5]"
    then have g: "?G (nm x) = ?I (mid x)" and m: "map sv (?I (mid x)) = [1, 3, 5]"
      by (simp_all add: by_id)
    from m have "length (map sv (?I (mid x))) = length [1, 3, 5 :: int]"
      by (simp only:)
    then have len: "length (?I (mid x)) = 3" by simp
    have "map JInt (map sv (?I (mid x))) = [JInt 1, JInt 3, JInt 5]"
      by (simp only: m list.map)
    then have js: "map (\<lambda>y. JInt (sv y)) (?I (mid x)) = [JInt 1, JInt 3, JInt 5]"
      by (simp add: comp_def)
    from div [OF x] have "py_truediv (sum_list (map sv (?I (mid x)))) (int (length (?I (mid x))))
                         = Inr (av (nm x))" unfolding g .
    then have "av (nm x) = 3" unfolding m len by (simp add: py_truediv_9_3)
    with entry [OF x] g len js show "dfind (JStr (nm x)) res =
                   Some \<lparr>total_effects = 3, avg_severity = 3,
                         severities = [JInt 1, JInt 3, JInt 5]\<rparr>"
      by simp
  qed
  show ?thesis
  proof (intro exI conjI)
    show "med_analysis t = Inr res" by (fact res)
    show "map fst res = map JStr ks" by (fact keys)
    show "distinct ks" by (fact dist)
    show "set ks = nm ` set es" by (fact dom)
  qed (fact part1, fact part2, fact part3)
qed

theorem med_analysis_per_medication_witness:
  "\<exists>res. med_analysis
       \<lparr>medications = JObj [(''x'', JObj [(''name'', JStr ''Aspirin''), (''active'', JBool True)]),
              (''y'', JObj [(''name'', JStr ''Ibuprofen''), (''active'', JBool False)])],
        logs = JList [], mood_logs = JList [],
        side_effects = JList [JObj [(''med_id'', JStr ''x''), (''severity'', JInt 1)],
              JObj [(''med_id'', JStr ''gone1''), (''severity'', JInt 1)],
              JObj [(''med_id'', JStr ''x''), (''severity'', JInt 3)],
              JObj [(''med_id'', JStr ''gone2''), (''severity'', JInt 1)],
              JObj [(''med_id'', JStr ''x''), (''severity'', JInt 5)],
              JObj [(''med_id'', JStr ''gone1''), (''severity'', JInt 2)]],
        data_file = Missing\<rparr> = Inr res
     \<and> dfind (JStr ''Aspirin'') res =
         Some \<lparr>total_effects = 3, avg_severity = 3, severities = [JInt 1, JInt 3, JInt 5]\<rparr>
     \<and> dfind (JStr ''Unknown (Deleted)'') res =
         Some \<lparr>total_effects = 3, avg_severity = 6004799503160661 / 4503599627370496,
               severities = [JInt 1, JInt 1, JInt 2]\<rparr>
     \<and> dfind (JStr ''Ibuprofen'') res = None"
proof -
  let ?ms = "[(''x'', JObj [(''name'', JStr ''Aspirin''), (''active'', JBool True)]),
              (''y'', JObj [(''name'', JStr ''Ibuprofen''), (''active'', JBool False)])]"
  let ?es = "[JObj [(''med_id'', JStr ''x''), (''severity'', JInt 1)],
              JObj [(''med_id'', JStr ''gone1''), (''severity'', JInt 1)],
              JObj [(''med_id'', JStr ''x''), (''severity'', JInt 3)],
              JObj [(''med_id'', JStr ''gone2''), (''severity'', JInt 1)],
              JObj [(''med_id'', JStr ''x''), (''severity'', JInt 5)],
              JObj [(''med_id'', JStr ''gone1''), (''severity'', JInt 2)]]"
  let ?t = "\<lparr>medications = JObj ?ms, logs = JList [], mood_logs = JList [],
             side_effects = JList ?es, data_file = Missing\<rparr>"
  let ?mid = "\<lambda>x. case py_getitem x ''med_id'' of Inr (JStr m) \<Rightarrow> m | _ \<Rightarrow> []"
  let ?sv = "\<lambda>x. case py_getitem x ''severity'' of Inr (JInt z) \<Rightarrow> z | _ \<Rightarrow> 0"
  let ?nm = "\<lambda>x. case map_of ?ms (?mid x) of
                    Some (JObj fs) \<Rightarrow> (case map_of fs ''name'' of Some (JStr n) \<Rightarrow> n | _ \<Rightarrow> [])
                  | _ \<Rightarrow> ''Unknown (Deleted)''"
  have h1: "medications ?t = JObj ?ms" by simp
  have h2: "side_effects ?t = JList ?es" by simp
  have h3: "\<forall>x\<in>set ?es. py_getitem x ''med_id'' = Inr (JStr (?mid x))
                  \<and> py_getitem x ''severity'' = Inr (JInt (?sv x))" by simp
  have h4: "\<forall>x\<in>set ?es.
        (case map_of ?ms (?mid x) of
           None \<Rightarrow> ?nm x = ''Unknown (Deleted)''
         | Some med \<Rightarrow> py_getitem med ''name'' = Inr (JStr (?nm x))
                       \<and> ?nm x \<noteq> ''Unknown (Deleted)'')" by simp
  have h5: "\<forall>x\<in>set ?es. \<forall>y\<in>set ?es.
        ?nm x = ?nm y \<and> map_of ?ms (?mid x) \<noteq> None \<longrightarrow> ?mid x = ?mid y" by simp
  have h6: "\<forall>x\<in>set ?es.
        py_truediv (sum_list (map ?sv (filter (\<lambda>y. ?nm y = ?nm x) ?es)))
          (int (length (filter (\<lambda>y. ?nm y = ?nm x) ?es))) \<noteq> Inl OverflowError"
    by (simp add: py_truediv_9_3 py_truediv_4_3)
  from med_analysis_per_medication [OF h1 h2 h3 h4 h5 h6] obtain res ks
    where res: "med_analysis ?t = Inr res"
      and keys: "map fst res = map JStr ks" "set ks = ?nm ` set ?es"
      and known: "\<forall>x\<in>set ?es. map_of ?ms (?mid x) \<noteq> None
                   \<and> map ?sv (filter (\<lambda>y. ?mid y = ?mid x) ?es) = [1, 3, 5] \<longrightarrow>
                 dfind (JStr (?nm x)) res =
                   Some \<lparr>total_effects = 3, avg_severity = 3,
                         severities = [JInt 1, JInt 3, JInt 5]\<rparr>"
      and orphans: "\<forall>x\<in>set ?es. map_of ?ms (?mid x) = None \<longrightarrow>
                 (\<exists>d. dfind (JStr ''Unknown (Deleted)'') res = Some d
                    \<and> total_effects d
                        = int (length (filter (\<lambda>y. map_of ?ms (?mid y) = None) ?es))
                    \<and> severities d
                        = map (\<lambda>y. JInt (?sv y)) (filter (\<lambda>y. map_of ?ms (?mid y) = None) ?es)
                    \<and> py_truediv
                         (sum_list (map ?sv (filter (\<lambda>y. map_of ?ms (?mid y) = None) ?es)))
                         (int (length (filter (\<lambda>y. map_of ?ms (?mid y) = None) ?es)))
                        = Inr (avg_severity d))"
    by blast
  from known have a: "dfind (JStr ''Aspirin'') res =
         Some \<lparr>total_effects = 3, avg_severity = 3, severities = [JInt 1, JInt 3, JInt 5]\<rparr>"
    by simp
  from orphans obtain d where d: "dfind (JStr ''Unknown (Deleted)'') res = Some d"
    "total_effects d = 3" "severities d = [JInt 1, JInt 1, JInt 2]"
    "py_truediv 4 3 = Inr (avg_severity d)"
    by auto
  from d(4) have "avg_severity d = 6004799503160661 / 4503599627370496"
    by (simp add: py_truediv_4_3)
  with d(2,3) have "d = \<lparr>total_effects = 3, avg_severity = 6004799503160661 / 4503599627370496,
               severities = [JInt 1, JInt 1, JInt 2]\<rparr>"
    by (cases d) simp
  with d(1) have u: "dfind (JStr ''Unknown (Deleted)'') res =
         Some \<lparr>total_effects = 3, avg_severity = 6004799503160661 / 4503599627370496,
               severities = [JInt 1, JInt 1, JInt 2]\<rparr>" by simp
  from keys(2) have "''Ibuprofen'' \<notin> set ks" by simp
  moreover have "fst ` set res = JStr ` set ks"
    using keys(1) by (metis list.set_map)
  ultimately have "JStr ''Ibuprofen'' \<notin> fst ` set res" by auto
  then have i: "dfind (JStr ''Ibuprofen'') res = None"
    using keys(1) by (simp add: dfind_str_keys map_of_eq_None_iff)
  from res a u i show ?thesis by blast
qed


text \<open>
  C1, as stated, fails for side effects of medications that were deleted: one of
  severity 1 for one id and one of severity 5 for another id are reported as one group
  of 2 with average 3.0, not as a group of 1 for each id.
\<close>

theorem med_analysis_deleted_merged:
  "med_analysis
     \<lparr>medications = JObj [],
      logs = JList [], mood_logs = JList [],
      side_effects = JList [JObj [(''med_id'', JStr ''a''), (''severity'', JInt 1)],
                            JObj [(''med_id'', JStr ''b''), (''severity'', JInt 5)]],
      data_file = Missing\<rparr>
   = Inr [(JStr ''Unknown (Deleted)'',
           \<lparr>total_effects = 2, avg_severity = 3, severities = [JInt 1, JInt 5]\<rparr>)]"
  by (simp add: med_analysis_def analysis_step_def effect_med_name_def set_avg_severity_def
      py_truediv_6_2 Let_def)

end
